theory Spec2Isabelle
  imports Main "HOL-Library.Word" "HOL-Library.Multiset"
begin

unbundle bit_operations_syntax

section \<open>Machine integers, errors and outcomes\<close>

text \<open>
  Go's \<open>uint8\<close>, \<open>uint32\<close> and \<open>uint64\<close> are words: \<open>+\<close>, \<open>-\<close> and \<open>*\<close> wrap
  around, \<open>uint32(x)\<close> on a \<open>uint64\<close> is \<open>ucast\<close> (truncation), and \<open>uint64(x)\<close> on a
  \<open>uint32\<close> is \<open>ucast\<close> (zero extension).
\<close>

type_synonym u8 = "8 word"
type_synonym u32 = "32 word"
type_synonym u64 = "64 word"

text \<open>
  A Go \<open>error\<close> value. \<open>Err_IncompleteParameters\<close>, \<open>ERR_ENOTSUP\<close> and \<open>ERR_EAGAIN\<close> are
  the package's sentinel errors, \<open>Errorf msg\<close> is a \<open>fmt.Errorf\<close> built in qcow2.go (the
  format arguments are left out of the message), and \<open>Err_External n\<close> is any error
  a collaborator outside qcow2.go hands back. A function returning \<open>error\<close> returns
  \<open>error option\<close>, \<open>None\<close> being \<open>nil\<close>.
\<close>

datatype error =
    Err_IncompleteParameters
  | ERR_ENOTSUP
  | ERR_EAGAIN
  | Errorf string
  | Err_External nat

text \<open>A call either returns or panics (\<open>panic(...)\<close>, a failed type assertion).\<close>

datatype 'a outcome = Returns 'a | Panics

text \<open>A value of a \<open>map[string]any\<close>, by its dynamic type.\<close>

datatype any = AUint64 u64 | AString string | ABool bool | AOther

section \<open>Constants\<close>

text \<open>
  Modelled from the spec: the constant declarations of the package, which are not in
  qcow2.go. The magic is the ASCII bytes \<open>QFI\<close> followed by \<open>0xfb\<close>; the versions are 2
  and 3; clusters have 64 KiB (\<open>cluster_bits = 16\<close>); \<open>refcount_order = 4\<close>;
  \<open>crypt_method = 0\<close>; sectors have 512 bytes; the incompatible feature bit \<open>EXTL2\<close> is
  \<open>1 << 4\<close>; a cluster has 32 subclusters; the option names are those of the interface
  table. The three block-status flags are distinct bits, numbered as in QEMU's block
  layer, from which \<open>BDRV_REQ_NO_FALLBACK\<close> and \<open>IOV_MAX\<close> are taken too.
\<close>

definition QCOW_MAGIC :: "u8 list" where
  "QCOW_MAGIC = [0x51, 0x46, 0x49, 0xfb]"

definition QCOW2_VERSION2 :: u32 where "QCOW2_VERSION2 = 2"
definition QCOW2_VERSION3 :: u32 where "QCOW2_VERSION3 = 3"
definition DEFAULT_CLUSTER_BITS :: u32 where "DEFAULT_CLUSTER_BITS = 16"
definition DEFAULT_CLUSTER_SIZE :: u64 where "DEFAULT_CLUSTER_SIZE = 65536"
definition DEFAULT_SECTOR_SIZE :: u64 where "DEFAULT_SECTOR_SIZE = 512"
definition BDRV_SECTOR_SIZE :: u64 where "BDRV_SECTOR_SIZE = 512"
definition QCOW2_REFCOUNT_ORDER :: u32 where "QCOW2_REFCOUNT_ORDER = 4"
definition QCOW2_CRYPT_METHOD :: u32 where "QCOW2_CRYPT_METHOD = 0"
definition QCOW2_INCOMPAT_EXTL2 :: u64 where "QCOW2_INCOMPAT_EXTL2 = 16"
definition QCOW_EXTL2_SUBCLUSTERS_PER_CLUSTER :: u64 where
  "QCOW_EXTL2_SUBCLUSTERS_PER_CLUSTER = 32"
definition SIZE_UINT64 :: u64 where "SIZE_UINT64 = 8"

definition BDRV_BLOCK_DATA :: u64 where "BDRV_BLOCK_DATA = 1"
definition BDRV_BLOCK_ZERO :: u64 where "BDRV_BLOCK_ZERO = 2"
definition BDRV_BLOCK_OFFSET_VALID :: u64 where "BDRV_BLOCK_OFFSET_VALID = 4"

definition BDRV_REQ_NO_FALLBACK :: u64 where "BDRV_REQ_NO_FALLBACK = 256"
definition IOV_MAX :: int where "IOV_MAX = 1024"

definition OPT_SIZE :: string where "OPT_SIZE = ''size''"
definition OPT_BACKING :: string where "OPT_BACKING = ''backing''"
definition OPT_SUBCLUSTER :: string where "OPT_SUBCLUSTER = ''subcluster''"
definition OPT_L2CACHESIZE :: string where "OPT_L2CACHESIZE = ''l2_cache_size''"

text \<open>\<open>binary.BigEndian.Uint32\<close>: the first four bytes, most significant first.\<close>

fun BigEndian_Uint32 :: "u8 list \<Rightarrow> u32" where
  "BigEndian_Uint32 (b0 # b1 # b2 # b3 # _) =
     (push_bit 24 (ucast b0) OR push_bit 16 (ucast b1) OR push_bit 8 (ucast b2) OR ucast b3)"
| "BigEndian_Uint32 _ = 0"

section \<open>The header\<close>

text \<open>
  \<open>QCowHeader\<close>, field by field. \<open>Padding [7]uint8\<close> carries no information and is left
  out. \<open>unsafe.Sizeof(QCowHeader{})\<close> is the sum of the field widths, every field
  being naturally aligned: 4+4+8+4+4+8+4+4+8+8+4+4+8 + 8+8+8 + 4+4 + 1 + 7 = 112.
\<close>

record QCowHeader =
  Magic :: u32
  Version :: u32
  BackingFileOffset :: u64
  BackingFileSize :: u32
  ClusterBits :: u32
  Size :: u64
  CryptMethod :: u32
  L1Size :: u32
  L1TableOffset :: u64
  RefcountTableOffset :: u64
  RefcountTableClusters :: u32
  NbSnapshots :: u32
  SnapshotsOffset :: u64
  IncompatibleFeatures :: u64
  CompatibleFeatures :: u64
  AutoclearFeatures :: u64
  RefcountOrder :: u32
  HeaderLength :: u32
  CompressionType :: u8

definition Sizeof_QCowHeader :: u32 where
  "Sizeof_QCowHeader = 112"

text \<open>\<open>check_Header\<close>: the six checks in the order of the source; \<open>None\<close> is \<open>nil\<close>.\<close>

definition check_Header :: "QCowHeader \<Rightarrow> error option" where
  "check_Header header =
     (if Magic header \<noteq> BigEndian_Uint32 QCOW_MAGIC then Some (Errorf ''no qcow2 format'')
      else if Version header \<noteq> QCOW2_VERSION2 \<and> Version header \<noteq> QCOW2_VERSION3
        then Some (Errorf ''unsupport header version'')
      else if ClusterBits header \<noteq> DEFAULT_CLUSTER_BITS
        then Some (Errorf ''no support for this cluster size, only 64k cluster size is supported'')
      else if RefcountOrder header \<noteq> QCOW2_REFCOUNT_ORDER
        then Some (Errorf ''no support for this refcount order, only 4 is supported'')
      else if CryptMethod header \<noteq> QCOW2_CRYPT_METHOD
        then Some (Errorf ''no support for cryption'')
      else if HeaderLength header > Sizeof_QCowHeader
        then Some (Errorf ''no support for extended qcow2 header'')
      else None)"

section \<open>In-memory state\<close>

text \<open>
  \<open>BdrvChild\<close> points to the \<open>BlockDriverState\<close> of the opened file. Pointers are
  handles (numbers); of the state behind \<open>child.bs\<close> only \<open>SupportedZeroFlags\<close> is read
  by qcow2.go, so the child carries it beside the handle.
\<close>

record BdrvChild =
  bs :: nat
  bs_SupportedZeroFlags :: u64

text \<open>
  Modelled from the spec: \<open>qcow2_cache_create(bs, num, size)\<close> is not in qcow2.go; the spec
  describes a fixed-capacity cache of cluster-sized pages whose capacity is set when it
  is created. A cache is its capacity in pages and its page size.
\<close>

record Qcow2Cache =
  capacity :: u32
  page_size :: u32

record Qcow2COWRegion =
  Offset :: u64
  NbBytes :: u64

text \<open>
  \<open>QCowL2Meta\<close>. The chain of one write request (\<open>Next\<close>) is a list of these records;
  \<open>NextInFlight\<close> is the handle of its element in \<open>ClusterAllocs\<close>; \<open>DataQiov\<close> is the
  handle of an I/O vector or \<open>nil\<close>. Its field \<open>Offset\<close> is \<open>m_Offset\<close> here, the name
  \<open>Offset\<close> being that of the region's field.
\<close>

record QCowL2Meta =
  m_Offset :: u64
  AllocOffset :: u64
  NbClusters :: int
  KeepOldClusters :: bool
  CowStart :: Qcow2COWRegion
  CowEnd :: Qcow2COWRegion
  SkipCow :: bool
  DataQiov :: "nat option"
  DataQiovOffset :: u64
  NextInFlight :: nat

text \<open>
  \<open>BDRVQcow2State\<close>: the fields \<open>initiate_qcow2_state\<close> sets, the two caches, the data
  file and the in-flight list. The tables, the allocator cursor, the mutex and the
  refcount accessors are read by no function modelled here and are left out. Fields
  that share a name with a header field carry the prefix \<open>s_\<close>.
\<close>

record BDRVQcow2State =
  s_ClusterBits :: u32
  ClusterSize :: u32
  L2Bits :: u32
  L2Size :: u32
  s_L1Size :: u32
  RefcountBlockBits :: u32
  RefcountBlockSize :: u32
  ClusterOffsetMask :: u64
  s_L1TableOffset :: u64
  L2TableCache :: "Qcow2Cache option"
  RefcountBlockCache :: "Qcow2Cache option"
  s_RefcountTableOffset :: u64
  RefcountTableSize :: u32
  QcowVersion :: int
  L2SliceSize :: int
  SubclusterBits :: u64
  SubclustersPerCluster :: u64
  SubclusterSize :: u64
  ClusterAllocs :: "nat list"
  s_IncompatibleFeatures :: u64
  DataFile :: "BdrvChild option"

text \<open>
  \<open>BlockDriverState\<close>: \<open>opaque\<close> is the qcow2 state. \<open>options\<close>, \<open>RequestAlignment\<close>,
  \<open>MaxTransfer\<close> and the statistics are read by no function modelled here.
\<close>

record BlockDriverState =
  filename :: string
  backingFile :: string
  backing :: "BdrvChild option"
  current :: "BdrvChild option"
  opaque :: BDRVQcow2State
  SupportedWriteFlags :: u64
  TotalSectors :: u64

text \<open>
  Modelled from the spec: the type \<open>QCow2SubclusterType\<close> is declared outside qcow2.go;
  the spec lists its seven values.
\<close>

datatype QCow2SubclusterType =
    QCOW2_SUBCLUSTER_UNALLOCATED_PLAIN
  | QCOW2_SUBCLUSTER_UNALLOCATED_ALLOC
  | QCOW2_SUBCLUSTER_ZERO_PLAIN
  | QCOW2_SUBCLUSTER_ZERO_ALLOC
  | QCOW2_SUBCLUSTER_NORMAL
  | QCOW2_SUBCLUSTER_COMPRESSED
  | QCOW2_SUBCLUSTER_INVALID

section \<open>Collaborators outside qcow2.go\<close>

text \<open>
  The raw file adapter, the block layer, the cluster-map engine, the allocator and the
  metadata caches are called by qcow2.go and defined elsewhere. Each call is recorded
  as an \<open>event\<close> with its arguments, in program order; what a call returns is given by
  an oracle of the environment \<open>env\<close>, which may depend on every earlier call. The
  functions of qcow2.go are modelled for an arbitrary environment. The image mutex is
  not modelled: one request runs at a time.
\<close>

datatype perm = PERM_ALL | PERM_READABLE

text \<open>
  What \<open>Blk_Pwrite_Object\<close> is given: the header, a byte string, the refcount table
  (its entry 0 and its number of entries, the other entries being zero) or the zeroed
  L1 table (its number of entries).
\<close>

datatype obj =
    Obj_header QCowHeader
  | Obj_bytes string
  | Obj_refcount_table u64 u64
  | Obj_l1_table u32

datatype event =
    Ev_bdrv_open_child string string int
  | Ev_bdrv_set_perm BdrvChild perm
  | Ev_bdrv_link_child BdrvChild string
  | Ev_bdrv_link_backing BdrvChild string
  | Ev_Blk_Pread_Object "BdrvChild option" u64 u64
  | Ev_Blk_Pwrite_Object "BdrvChild option" u64 obj u64
  | Ev_bdrv_flush
  | Ev_qcow2_cache_create u32 u32
  | Ev_qcow2_cache_flush "Qcow2Cache option"
  | Ev_qcow2_cache_destroy "Qcow2Cache option"
  | Ev_qcow2_refcount_init
  | Ev_qcow2_alloc_clusters u64
  | Ev_qcow2_get_host_offset u64 u32
  | Ev_Qemu_Iovec_Memset nat u64 u8 u64
  | Ev_bdrv_preadv_part "BdrvChild option" u64 u64 nat u64
  | Ev_bdrv_pwritev_part "BdrvChild option" u64 u64 nat u64
  | Ev_bdrv_pwrite_zeroes "BdrvChild option" u64 u64 u64
  | Ev_bdrv_is_zero_fast u64 u64
  | Ev_bdrv_block_status_above u64 u64
  | Ev_qcow2_alloc_host_offset u64 u64
  | Ev_qcow2_alloc_cluster_link_l2 QCowL2Meta
  | Ev_qcow2_alloc_cluster_abort QCowL2Meta
  | Ev_qcow2_subcluster_zeroize u64 u64 u64

text \<open>
  The environment: the layout constants whose values the sources do not give, the
  conversion \<open>interface2uint64\<close>, the fragment count \<open>Qemu_Iovec_Subvec_Niov\<close>, and one
  oracle per collaborator that returns something. The cluster-map engine returns, on
  success, the run's byte count, host offset and subcluster type;
  \<open>qcow2_alloc_host_offset\<close> returns the error, the run's byte count, the host offset,
  the chain of \<open>L2Meta\<close> and the in-flight list as it leaves it.
\<close>

record env =
  L1_TABLE_OFFSET :: u64
  REFCOUNT_TABLE_OFFSET :: u64
  BACKING_FILE_OFFSET :: u64
  DEFAULT_REFCOUNT_TABLE_CLUSTERS :: u32
  REFCOUNT_TABLE_SIZE :: u64
  interface2uint64 :: "any \<Rightarrow> u64"
  Qemu_Iovec_Subvec_Niov :: "nat \<Rightarrow> u64 \<Rightarrow> u64 \<Rightarrow> int"
  bdrv_open_child_res :: "event list \<Rightarrow> string \<Rightarrow> string \<Rightarrow> int \<Rightarrow> error + BdrvChild"
  Blk_Pread_header_res :: "event list \<Rightarrow> BdrvChild \<Rightarrow> error + QCowHeader"
  Blk_Pread_string_res :: "event list \<Rightarrow> BdrvChild \<Rightarrow> u64 \<Rightarrow> u64 \<Rightarrow> error + string"
  Blk_Pread_table_res :: "event list \<Rightarrow> BdrvChild option \<Rightarrow> u64 \<Rightarrow> u64 \<Rightarrow> error option"
  Blk_Pwrite_Object_res :: "event list \<Rightarrow> BdrvChild option \<Rightarrow> u64 \<Rightarrow> obj \<Rightarrow> u64 \<Rightarrow> error option"
  qcow2_refcount_init_res :: "event list \<Rightarrow> error option"
  qcow2_alloc_clusters_res :: "event list \<Rightarrow> u64 \<Rightarrow> error option"
  qcow2_get_host_offset_res ::
    "event list \<Rightarrow> u64 \<Rightarrow> u32 \<Rightarrow> error + (u32 \<times> u64 \<times> QCow2SubclusterType)"
  bdrv_preadv_part_res :: "event list \<Rightarrow> BdrvChild option \<Rightarrow> u64 \<Rightarrow> u64 \<Rightarrow> nat \<Rightarrow> u64 \<Rightarrow> error option"
  bdrv_pwritev_part_res :: "event list \<Rightarrow> BdrvChild option \<Rightarrow> u64 \<Rightarrow> u64 \<Rightarrow> nat \<Rightarrow> u64 \<Rightarrow> error option"
  bdrv_pwrite_zeroes_res :: "event list \<Rightarrow> BdrvChild option \<Rightarrow> u64 \<Rightarrow> u64 \<Rightarrow> u64 \<Rightarrow> error option"
  bdrv_is_zero_fast_res :: "event list \<Rightarrow> u64 \<Rightarrow> u64 \<Rightarrow> bool \<times> error option"
  bdrv_block_status_above_res :: "event list \<Rightarrow> u64 \<Rightarrow> u64 \<Rightarrow> u64 \<times> error option \<times> u64"
  qcow2_alloc_host_offset_res ::
    "event list \<Rightarrow> nat list \<Rightarrow> u64 \<Rightarrow> u64 \<Rightarrow> error option \<times> u64 \<times> u64 \<times> QCowL2Meta list \<times> nat list"
  qcow2_alloc_cluster_link_l2_res :: "event list \<Rightarrow> QCowL2Meta \<Rightarrow> error option"
  qcow2_subcluster_zeroize_res :: "event list \<Rightarrow> u64 \<Rightarrow> u64 \<Rightarrow> u64 \<Rightarrow> error option"

definition bdrv_open_child ::
  "env \<Rightarrow> string \<Rightarrow> string \<Rightarrow> int \<Rightarrow> event list \<Rightarrow> (error + BdrvChild) \<times> event list" where
  "bdrv_open_child e fname drv flags tr =
     (bdrv_open_child_res e tr fname drv flags, tr @ [Ev_bdrv_open_child fname drv flags])"

definition bdrv_set_perm :: "BdrvChild \<Rightarrow> perm \<Rightarrow> event list \<Rightarrow> event list" where
  "bdrv_set_perm child p tr = tr @ [Ev_bdrv_set_perm child p]"

definition bdrv_link_child :: "BdrvChild \<Rightarrow> string \<Rightarrow> event list \<Rightarrow> event list" where
  "bdrv_link_child child fname tr = tr @ [Ev_bdrv_link_child child fname]"

definition bdrv_link_backing :: "BdrvChild \<Rightarrow> string \<Rightarrow> event list \<Rightarrow> event list" where
  "bdrv_link_backing child fname tr = tr @ [Ev_bdrv_link_backing child fname]"

definition Blk_Pread_header ::
  "env \<Rightarrow> BdrvChild \<Rightarrow> event list \<Rightarrow> (error + QCowHeader) \<times> event list" where
  "Blk_Pread_header e child tr =
     (Blk_Pread_header_res e tr child,
      tr @ [Ev_Blk_Pread_Object (Some child) 0 (ucast Sizeof_QCowHeader)])"

definition Blk_Pread_string ::
  "env \<Rightarrow> BdrvChild \<Rightarrow> u64 \<Rightarrow> u64 \<Rightarrow> event list \<Rightarrow> (error + string) \<times> event list" where
  "Blk_Pread_string e child off n tr =
     (Blk_Pread_string_res e tr child off n, tr @ [Ev_Blk_Pread_Object (Some child) off n])"

definition Blk_Pread_table ::
  "env \<Rightarrow> BdrvChild option \<Rightarrow> u64 \<Rightarrow> u64 \<Rightarrow> event list \<Rightarrow> error option \<times> event list" where
  "Blk_Pread_table e child off n tr =
     (Blk_Pread_table_res e tr child off n, tr @ [Ev_Blk_Pread_Object child off n])"

definition Blk_Pwrite_Object ::
  "env \<Rightarrow> BdrvChild option \<Rightarrow> u64 \<Rightarrow> obj \<Rightarrow> u64 \<Rightarrow> event list \<Rightarrow> error option \<times> event list" where
  "Blk_Pwrite_Object e child off ob n tr =
     (Blk_Pwrite_Object_res e tr child off ob n, tr @ [Ev_Blk_Pwrite_Object child off ob n])"

definition bdrv_flush :: "event list \<Rightarrow> event list" where
  "bdrv_flush tr = tr @ [Ev_bdrv_flush]"

definition qcow2_cache_create :: "u32 \<Rightarrow> u32 \<Rightarrow> event list \<Rightarrow> Qcow2Cache \<times> event list" where
  "qcow2_cache_create num sz tr =
     (\<lparr>capacity = num, page_size = sz\<rparr>, tr @ [Ev_qcow2_cache_create num sz])"

definition qcow2_cache_flush :: "Qcow2Cache option \<Rightarrow> event list \<Rightarrow> event list" where
  "qcow2_cache_flush c tr = tr @ [Ev_qcow2_cache_flush c]"

definition qcow2_cache_destroy :: "Qcow2Cache option \<Rightarrow> event list \<Rightarrow> event list" where
  "qcow2_cache_destroy c tr = tr @ [Ev_qcow2_cache_destroy c]"

definition qcow2_refcount_init :: "env \<Rightarrow> event list \<Rightarrow> error option \<times> event list" where
  "qcow2_refcount_init e tr = (qcow2_refcount_init_res e tr, tr @ [Ev_qcow2_refcount_init])"

definition qcow2_alloc_clusters :: "env \<Rightarrow> u64 \<Rightarrow> event list \<Rightarrow> error option \<times> event list" where
  "qcow2_alloc_clusters e n tr = (qcow2_alloc_clusters_res e tr n, tr @ [Ev_qcow2_alloc_clusters n])"

definition qcow2_get_host_offset ::
  "env \<Rightarrow> u64 \<Rightarrow> u32 \<Rightarrow> event list \<Rightarrow>
   (error + (u32 \<times> u64 \<times> QCow2SubclusterType)) \<times> event list" where
  "qcow2_get_host_offset e off n tr =
     (qcow2_get_host_offset_res e tr off n, tr @ [Ev_qcow2_get_host_offset off n])"

definition Qemu_Iovec_Memset :: "nat \<Rightarrow> u64 \<Rightarrow> u8 \<Rightarrow> u64 \<Rightarrow> event list \<Rightarrow> event list" where
  "Qemu_Iovec_Memset qiov off c n tr = tr @ [Ev_Qemu_Iovec_Memset qiov off c n]"

definition bdrv_preadv_part ::
  "env \<Rightarrow> BdrvChild option \<Rightarrow> u64 \<Rightarrow> u64 \<Rightarrow> nat \<Rightarrow> u64 \<Rightarrow> event list \<Rightarrow> error option \<times> event list" where
  "bdrv_preadv_part e child off n qiov qoff tr =
     (bdrv_preadv_part_res e tr child off n qiov qoff,
      tr @ [Ev_bdrv_preadv_part child off n qiov qoff])"

definition bdrv_pwritev_part ::
  "env \<Rightarrow> BdrvChild option \<Rightarrow> u64 \<Rightarrow> u64 \<Rightarrow> nat \<Rightarrow> u64 \<Rightarrow> event list \<Rightarrow> error option \<times> event list" where
  "bdrv_pwritev_part e child off n qiov qoff tr =
     (bdrv_pwritev_part_res e tr child off n qiov qoff,
      tr @ [Ev_bdrv_pwritev_part child off n qiov qoff])"

definition bdrv_pwrite_zeroes ::
  "env \<Rightarrow> BdrvChild option \<Rightarrow> u64 \<Rightarrow> u64 \<Rightarrow> u64 \<Rightarrow> event list \<Rightarrow> error option \<times> event list" where
  "bdrv_pwrite_zeroes e child off n flags tr =
     (bdrv_pwrite_zeroes_res e tr child off n flags, tr @ [Ev_bdrv_pwrite_zeroes child off n flags])"

definition bdrv_is_zero_fast ::
  "env \<Rightarrow> u64 \<Rightarrow> u64 \<Rightarrow> event list \<Rightarrow> (bool \<times> error option) \<times> event list" where
  "bdrv_is_zero_fast e off n tr = (bdrv_is_zero_fast_res e tr off n, tr @ [Ev_bdrv_is_zero_fast off n])"

definition bdrv_block_status_above ::
  "env \<Rightarrow> u64 \<Rightarrow> u64 \<Rightarrow> event list \<Rightarrow> (u64 \<times> error option \<times> u64) \<times> event list" where
  "bdrv_block_status_above e off n tr =
     (bdrv_block_status_above_res e tr off n, tr @ [Ev_bdrv_block_status_above off n])"

definition qcow2_alloc_host_offset ::
  "env \<Rightarrow> nat list \<Rightarrow> u64 \<Rightarrow> u64 \<Rightarrow> event list \<Rightarrow>
   (error option \<times> u64 \<times> u64 \<times> QCowL2Meta list \<times> nat list) \<times> event list" where
  "qcow2_alloc_host_offset e allocs off n tr =
     (qcow2_alloc_host_offset_res e tr allocs off n, tr @ [Ev_qcow2_alloc_host_offset off n])"

definition qcow2_alloc_cluster_link_l2 ::
  "env \<Rightarrow> QCowL2Meta \<Rightarrow> event list \<Rightarrow> error option \<times> event list" where
  "qcow2_alloc_cluster_link_l2 e m tr =
     (qcow2_alloc_cluster_link_l2_res e tr m, tr @ [Ev_qcow2_alloc_cluster_link_l2 m])"

definition qcow2_alloc_cluster_abort :: "QCowL2Meta \<Rightarrow> event list \<Rightarrow> event list" where
  "qcow2_alloc_cluster_abort m tr = tr @ [Ev_qcow2_alloc_cluster_abort m]"

definition qcow2_subcluster_zeroize ::
  "env \<Rightarrow> u64 \<Rightarrow> u64 \<Rightarrow> u64 \<Rightarrow> event list \<Rightarrow> error option \<times> event list" where
  "qcow2_subcluster_zeroize e off n flags tr =
     (qcow2_subcluster_zeroize_res e tr off n flags, tr @ [Ev_qcow2_subcluster_zeroize off n flags])"

text \<open>
  Modelled from the spec: the helpers \<open>round_up\<close>, \<open>offset_into_subcluster\<close> and
  \<open>l2meta_cow_start\<close> are not in the sources. \<open>round_up(n, d)\<close> rounds \<open>n\<close> up to the next
  multiple of \<open>d\<close>, computed in \<open>uint64\<close> as the sources' callers hold it (so the sum
  \<open>n + d - 1\<close> wraps at \<open>2^64\<close>); \<open>offset_into_subcluster\<close> is the offset's position inside
  its subcluster (the subcluster size is a power of two); \<open>l2meta_cow_start\<close> is the
  guest offset at which the first copy-on-write region of an \<open>L2Meta\<close> starts.
\<close>

definition round_up :: "u64 \<Rightarrow> u64 \<Rightarrow> u64" where
  "round_up n d = (n + d - 1) div d * d"

definition offset_into_subcluster :: "BDRVQcow2State \<Rightarrow> u64 \<Rightarrow> u64" where
  "offset_into_subcluster s off = off AND (SubclusterSize s - 1)"

definition l2meta_cow_start :: "QCowL2Meta \<Rightarrow> u64" where
  "l2meta_cow_start m = m_Offset m + Offset (CowStart m)"

text \<open>The type assertions \<open>val.(uint64)\<close>, \<open>val.(string)\<close> and \<open>val.(bool)\<close>.\<close>

fun assert_uint64 :: "any \<Rightarrow> u64 outcome" where
  "assert_uint64 (AUint64 v) = Returns v"
| "assert_uint64 _ = Panics"

fun assert_string :: "any \<Rightarrow> string outcome" where
  "assert_string (AString v) = Returns v"
| "assert_string _ = Panics"

fun assert_bool :: "any \<Rightarrow> bool outcome" where
  "assert_bool (ABool v) = Returns v"
| "assert_bool _ = Panics"

section \<open>Open, close and create\<close>

text \<open>
  \<open>initiate_qcow2_state\<close>. A Go shift \<open>1 << n\<close> is \<open>push_bit n 1\<close> at the width of the
  field it is stored in (zero once \<open>n\<close> reaches the width); \<open>L2SliceSize\<close> is an \<open>int\<close>
  (64 bits, read as signed).
\<close>

definition initiate_qcow2_state :: "QCowHeader \<Rightarrow> bool \<Rightarrow> BDRVQcow2State" where
  "initiate_qcow2_state header enableSC =
     (let cb = ClusterBits header;
          s = \<lparr> s_ClusterBits = cb,
                ClusterSize = push_bit (unat cb) 1,
                L2Bits = 0,
                L2Size = 0,
                s_L1Size = L1Size header,
                RefcountBlockBits = cb - (RefcountOrder header - 3),
                RefcountBlockSize = push_bit (unat (cb - (RefcountOrder header - 3))) 1,
                ClusterOffsetMask = push_bit (unat (70 - cb)) 1 - 1,
                s_L1TableOffset = L1TableOffset header,
                L2TableCache = None,
                RefcountBlockCache = None,
                s_RefcountTableOffset = RefcountTableOffset header,
                RefcountTableSize = push_bit (unat (cb - 3)) (RefcountTableClusters header),
                QcowVersion = uint (Version header),
                L2SliceSize = 0,
                SubclusterBits = 0,
                SubclustersPerCluster = 0,
                SubclusterSize = 0,
                ClusterAllocs = [],
                s_IncompatibleFeatures = 0,
                DataFile = None \<rparr>
      in if enableSC then
           s\<lparr> s_IncompatibleFeatures := s_IncompatibleFeatures s OR QCOW2_INCOMPAT_EXTL2,
              SubclustersPerCluster := QCOW_EXTL2_SUBCLUSTERS_PER_CLUSTER,
              SubclusterBits := ucast (cb - 5),
              SubclusterSize := ucast (ClusterSize s) div QCOW_EXTL2_SUBCLUSTERS_PER_CLUSTER,
              L2Bits := cb - 4,
              L2Size := push_bit (unat (cb - 4)) 1,
              L2SliceSize := sint (push_bit (unat (cb - 4)) (1 :: u64)) \<rparr>
         else
           s\<lparr> s_IncompatibleFeatures := 0,
              SubclustersPerCluster := 1,
              SubclusterSize := push_bit (unat cb) 1,
              SubclusterBits := ucast cb,
              L2Bits := cb - 3,
              L2Size := push_bit (unat (cb - 3)) 1,
              L2SliceSize := sint (push_bit (unat (cb - 3)) (1 :: u64)) \<rparr>)"

text \<open>
  \<open>qcow2_open\<close>, lines 284 to 290: the number of pages of the L2 table cache, from the
  value of the \<open>l2_cache_size\<close> option (0 when the option is absent) and the L1 size.
\<close>

definition l2CacehNum_of :: "u64 \<Rightarrow> u32 \<Rightarrow> u32" where
  "l2CacehNum_of l2CacheSize l1size =
     (if l2CacheSize > 0
      then ucast (round_up l2CacheSize DEFAULT_CLUSTER_SIZE div DEFAULT_CLUSTER_SIZE)
      else l1size)"

text \<open>
  \<open>qcow2_open\<close> after \<open>check_Header\<close> has passed (lines 231 to 297): the backing file,
  the state, the refcount table, the L1 table and the two caches. The contents of the
  tables are not kept.
\<close>

definition qcow2_open_checked ::
  "env \<Rightarrow> string \<Rightarrow> int \<Rightarrow> u64 \<Rightarrow> BdrvChild \<Rightarrow> QCowHeader \<Rightarrow> event list \<Rightarrow>
   (error + BlockDriverState) outcome \<times> event list" where
  "qcow2_open_checked e fname flags l2CacheSize child header tr3 =
     (case (if BackingFileOffset header > 0 \<and> BackingFileSize header > 0 then
              (case Blk_Pread_string e child (BackingFileOffset header)
                      (ucast (BackingFileSize header)) tr3 of
                 (Inl err, tr4) \<Rightarrow> (Inl (Errorf ''can not read backing file''), tr4)
               | (Inr bfile, tr4) \<Rightarrow>
                   (case bdrv_open_child e bfile ''qcow2'' flags tr4 of
                      (Inl err, tr5) \<Rightarrow> (Inl err, tr5)
                    | (Inr b, tr5) \<Rightarrow> (Inr (bfile, Some b), bdrv_set_perm b PERM_READABLE tr5)))
            else (Inr ([], None), tr3)) of
        (Inl err, tr6) \<Rightarrow> (Returns (Inl err), tr6)
      | (Inr (bfile, bk), tr6) \<Rightarrow>
          (let enableSc = (IncompatibleFeatures header AND QCOW2_INCOMPAT_EXTL2 > 0);
               opq = (initiate_qcow2_state header enableSc)\<lparr>DataFile := Some child\<rparr>;
               st = \<lparr> filename = fname, backingFile = bfile, backing = None,
                      current = None, opaque = opq, SupportedWriteFlags = 0,
                      TotalSectors = Size header div BDRV_SECTOR_SIZE \<rparr>;
               tr7 = bdrv_link_child child fname tr6;
               st1 = st\<lparr>current := Some child\<rparr>;
               tr8 = (case bk of None \<Rightarrow> tr7 | Some b \<Rightarrow> bdrv_link_backing b bfile tr7);
               st2 = st1\<lparr>backing := bk\<rparr>
           in case qcow2_refcount_init e tr8 of
                (Some err, tr9) \<Rightarrow>
                  (Returns (Inl (Errorf ''could not initialize refcount table'')), tr9)
              | (None, tr9) \<Rightarrow>
                  (case (if s_L1Size opq > 0
                         then Blk_Pread_table e (current st2) (s_L1TableOffset opq)
                                (ucast (s_L1Size opq) * SIZE_UINT64) tr9
                         else (None, tr9)) of
                     (Some err, tr10) \<Rightarrow> (Returns (Inl (Errorf ''could not read L1 table'')), tr10)
                   | (None, tr10) \<Rightarrow>
                       (let l2CacehNum = l2CacehNum_of l2CacheSize (s_L1Size opq);
                            (c1, tr11) = qcow2_cache_create l2CacehNum (ClusterSize opq) tr10;
                            refcountCacheNum = max (l2CacehNum div 2) 1;
                            (c2, tr12) = qcow2_cache_create refcountCacheNum (ClusterSize opq) tr11
                        in (Returns (Inr (st2\<lparr>opaque :=
                                opq\<lparr>L2TableCache := Some c1, RefcountBlockCache := Some c2\<rparr>\<rparr>)),
                            tr12)))))"

text \<open>
  \<open>qcow2_open\<close>: \<open>Inl\<close> is \<open>(nil, err)\<close>, \<open>Inr\<close> is \<open>(bs, nil)\<close>. \<open>bdrv_link_child\<close> and
  \<open>bdrv_link_backing\<close> are taken to store the child in \<open>bs.current\<close> and \<open>bs.backing\<close>.
\<close>

definition qcow2_open ::
  "env \<Rightarrow> string \<Rightarrow> (string \<rightharpoonup> any) \<Rightarrow> int \<Rightarrow> event list \<Rightarrow>
   (error + BlockDriverState) outcome \<times> event list" where
  "qcow2_open e fname opts flags tr0 =
     (if fname = [] then (Returns (Inl Err_IncompleteParameters), tr0)
      else case (case opts OPT_L2CACHESIZE of None \<Rightarrow> Returns 0 | Some val \<Rightarrow> assert_uint64 val) of
        Panics \<Rightarrow> (Panics, tr0)
      | Returns l2CacheSize \<Rightarrow>
          (case bdrv_open_child e fname ''raw'' flags tr0 of
             (Inl err, tr1) \<Rightarrow> (Returns (Inl err), tr1)
           | (Inr child, tr1) \<Rightarrow>
               (case Blk_Pread_header e child (bdrv_set_perm child PERM_ALL tr1) of
                  (Inl err, tr3) \<Rightarrow> (Returns (Inl (Errorf ''qcow2 file read fail'')), tr3)
                | (Inr header, tr3) \<Rightarrow>
                    (case check_Header header of
                       Some err \<Rightarrow> (Returns (Inl err), tr3)
                     | None \<Rightarrow>
                         qcow2_open_checked e fname flags l2CacheSize child header tr3))))"

text \<open>\<open>qcow2_close\<close> on a non-nil state: flush both caches, then destroy them.\<close>

definition qcow2_close :: "BlockDriverState \<Rightarrow> event list \<Rightarrow> event list" where
  "qcow2_close st tr =
     (let s = opaque st;
          tr1 = qcow2_cache_flush (L2TableCache s) tr;
          tr2 = qcow2_cache_flush (RefcountBlockCache s) tr1;
          tr3 = qcow2_cache_destroy (L2TableCache s) tr2
      in qcow2_cache_destroy (RefcountBlockCache s) tr3)"

text \<open>
  \<open>qcow2_create\<close>, lines 97 to 134: the header written for a requested size, a backing
  file name and the subcluster switch.
\<close>

definition qcow2_create_header :: "env \<Rightarrow> u64 \<Rightarrow> string \<Rightarrow> bool \<Rightarrow> QCowHeader" where
  "qcow2_create_header e size0 bfile enableSc =
     (let sz = round_up size0 DEFAULT_SECTOR_SIZE;
          size2 = round_up sz DEFAULT_CLUSTER_SIZE;
          sh = unat (DEFAULT_CLUSTER_BITS + DEFAULT_CLUSTER_BITS - 3);
          l1Size = drop_bit sh (round_up size2 (push_bit sh 1));
          header = \<lparr> Magic = BigEndian_Uint32 QCOW_MAGIC,
                     Version = QCOW2_VERSION3,
                     BackingFileOffset = 0,
                     BackingFileSize = 0,
                     ClusterBits = DEFAULT_CLUSTER_BITS,
                     Size = sz,
                     CryptMethod = QCOW2_CRYPT_METHOD,
                     L1Size = ucast l1Size,
                     L1TableOffset = L1_TABLE_OFFSET e,
                     RefcountTableOffset = REFCOUNT_TABLE_OFFSET e,
                     RefcountTableClusters = DEFAULT_REFCOUNT_TABLE_CLUSTERS e,
                     NbSnapshots = 0,
                     SnapshotsOffset = 0,
                     IncompatibleFeatures = 0,
                     CompatibleFeatures = 0,
                     AutoclearFeatures = 0,
                     RefcountOrder = QCOW2_REFCOUNT_ORDER,
                     HeaderLength = Sizeof_QCowHeader,
                     CompressionType = 0 \<rparr>;
          header1 = (if enableSc
                     then header\<lparr> IncompatibleFeatures :=
                                     IncompatibleFeatures header OR QCOW2_INCOMPAT_EXTL2,
                                   L1Size := L1Size header * 2 \<rparr>
                     else header)
      in if bfile \<noteq> []
         then header1\<lparr> BackingFileOffset := BACKING_FILE_OFFSET e,
                        BackingFileSize := word_of_nat (length bfile) \<rparr>
         else header1)"

text \<open>
  \<open>qcow2_create\<close> from line 136 on: the state, the header, the backing file name, the
  refcount table, the L1 table, the reservation of the first four clusters, the close.
  Indexing an empty refcount table panics.
\<close>

definition qcow2_create_image ::
  "env \<Rightarrow> string \<Rightarrow> u64 \<Rightarrow> string \<Rightarrow> bool \<Rightarrow> BdrvChild \<Rightarrow> event list \<Rightarrow>
   error option outcome \<times> event list" where
  "qcow2_create_image e fname size0 bfile enableSc child tr1 =
     (let header = qcow2_create_header e size0 bfile enableSc;
          sh = unat (DEFAULT_CLUSTER_BITS + DEFAULT_CLUSTER_BITS - 3);
          l1Size = drop_bit sh (round_up (round_up (round_up size0 DEFAULT_SECTOR_SIZE)
                     DEFAULT_CLUSTER_SIZE) (push_bit sh 1));
          qcow2State = (initiate_qcow2_state header enableSc)\<lparr>DataFile := Some child\<rparr>;
          st = \<lparr> filename = fname, backingFile = [], backing = None, current = Some child,
                 opaque = qcow2State, SupportedWriteFlags = 0, TotalSectors = 0 \<rparr>;
          tr2 = bdrv_link_child child fname tr1
      in case Blk_Pwrite_Object e (current st) 0 (Obj_header header) (ucast Sizeof_QCowHeader) tr2 of
           (Some err, tr3) \<Rightarrow> (Returns (Some err), tr3)
         | (None, tr3) \<Rightarrow>
             (case (if bfile \<noteq> []
                    then Blk_Pwrite_Object e (current st) (BACKING_FILE_OFFSET e) (Obj_bytes bfile)
                           (word_of_nat (length bfile)) tr3
                    else (None, tr3)) of
                (Some err, tr4) \<Rightarrow> (Returns (Some err), tr4)
              | (None, tr4) \<Rightarrow>
                  (let (c1, tr5) = qcow2_cache_create 1 (ClusterSize qcow2State) tr4;
                       (c2, tr6) = qcow2_cache_create 1 (ClusterSize qcow2State) tr5;
                       st1 = st\<lparr>opaque := qcow2State\<lparr>L2TableCache := Some c1,
                                                       RefcountBlockCache := Some c2\<rparr>\<rparr>
                   in if 2 * REFCOUNT_TABLE_SIZE e = 0 then (Panics, tr6)
                      else case Blk_Pwrite_Object e (current st1) (REFCOUNT_TABLE_OFFSET e)
                                  (Obj_refcount_table (2 * DEFAULT_CLUSTER_SIZE)
                                     (2 * REFCOUNT_TABLE_SIZE e))
                                  (2 * REFCOUNT_TABLE_SIZE e * SIZE_UINT64) tr6 of
                        (Some err, tr7) \<Rightarrow> (Returns (Some err), tr7)
                      | (None, tr7) \<Rightarrow>
                          (case Blk_Pwrite_Object e (current st1) (L1_TABLE_OFFSET e)
                                  (Obj_l1_table (L1Size header)) (l1Size * SIZE_UINT64)
                                  (bdrv_flush tr7) of
                             (Some err, tr9) \<Rightarrow> (Returns (Some err), tr9)
                           | (None, tr9) \<Rightarrow>
                               (case qcow2_alloc_clusters e (4 * DEFAULT_CLUSTER_SIZE)
                                       (bdrv_flush tr9) of
                                  (Some err, tr11) \<Rightarrow> (Returns (Some err), tr11)
                                | (None, tr11) \<Rightarrow>
                                    (Returns None, qcow2_close st1 tr11))))))"

text \<open>
  \<open>qcow2_create\<close>. \<open>os.O_RDWR|os.O_CREATE\<close> is 2 OR 64 on Linux.
\<close>

definition qcow2_create ::
  "env \<Rightarrow> string \<Rightarrow> (string \<rightharpoonup> any) \<Rightarrow> event list \<Rightarrow> error option outcome \<times> event list" where
  "qcow2_create e fname options tr0 =
     (if fname = [] then (Returns (Some Err_IncompleteParameters), tr0)
      else case options OPT_SIZE of
        None \<Rightarrow> (Returns (Some Err_IncompleteParameters), tr0)
      | Some val \<Rightarrow>
          (case (case options OPT_BACKING of None \<Rightarrow> Returns [] | Some v \<Rightarrow> assert_string v) of
             Panics \<Rightarrow> (Panics, tr0)
           | Returns bfile \<Rightarrow>
               (case (case options OPT_SUBCLUSTER of None \<Rightarrow> Returns False
                      | Some v \<Rightarrow> assert_bool v) of
                  Panics \<Rightarrow> (Panics, tr0)
                | Returns enableSc \<Rightarrow>
                    (case bdrv_open_child e fname ''raw'' 66 tr0 of
                       (Inl err, tr1) \<Rightarrow> (Returns (Some err), tr1)
                     | (Inr child, tr1) \<Rightarrow>
                         qcow2_create_image e fname (interface2uint64 e val) bfile enableSc child
                           (bdrv_set_perm child PERM_ALL tr1)))))"

section \<open>Reading\<close>

text \<open>
  \<open>qcow2_preadv_task\<close>: the switch on the subcluster type. The \<open>COMPRESSED\<close> case has an
  empty body, so control leaves the switch and reaches the \<open>panic\<close> that ends the
  function. \<open>qiov\<close> is the handle of the I/O vector.
\<close>

fun qcow2_preadv_task ::
  "env \<Rightarrow> BlockDriverState \<Rightarrow> QCow2SubclusterType \<Rightarrow> u64 \<Rightarrow> u64 \<Rightarrow> u64 \<Rightarrow> nat \<Rightarrow> u64 \<Rightarrow>
   event list \<Rightarrow> error option outcome \<times> event list" where
  "qcow2_preadv_task e st QCOW2_SUBCLUSTER_ZERO_PLAIN hostOffset offset bytes qiov qiovOffset tr =
     (Panics, tr)"
| "qcow2_preadv_task e st QCOW2_SUBCLUSTER_ZERO_ALLOC hostOffset offset bytes qiov qiovOffset tr =
     (Panics, tr)"
| "qcow2_preadv_task e st QCOW2_SUBCLUSTER_UNALLOCATED_PLAIN hostOffset offset bytes qiov qiovOffset tr =
     (case bdrv_preadv_part e (backing st) offset bytes qiov qiovOffset tr of
        (err, tr1) \<Rightarrow> (Returns err, tr1))"
| "qcow2_preadv_task e st QCOW2_SUBCLUSTER_UNALLOCATED_ALLOC hostOffset offset bytes qiov qiovOffset tr =
     (case bdrv_preadv_part e (backing st) offset bytes qiov qiovOffset tr of
        (err, tr1) \<Rightarrow> (Returns err, tr1))"
| "qcow2_preadv_task e st QCOW2_SUBCLUSTER_COMPRESSED hostOffset offset bytes qiov qiovOffset tr =
     (Panics, tr)"
| "qcow2_preadv_task e st QCOW2_SUBCLUSTER_NORMAL hostOffset offset bytes qiov qiovOffset tr =
     (case bdrv_preadv_part e (DataFile (opaque st)) hostOffset bytes qiov qiovOffset tr of
        (err, tr1) \<Rightarrow> (Returns err, tr1))"
| "qcow2_preadv_task e st QCOW2_SUBCLUSTER_INVALID hostOffset offset bytes qiov qiovOffset tr =
     (Panics, tr)"

text \<open>
  \<open>qcow2_preadv_part\<close>: the loop over the runs of the request. \<open>curBytes\<close> starts as
  \<open>uint32(bytes)\<close> and is replaced by the run's byte count; a run of zero bytes makes no
  progress, so the loop need not end and the function is partial (\<open>None\<close>: no return).
  The task is handed \<open>bytes\<close>, the byte count still to read, as line 391 does.
\<close>

partial_function (option) qcow2_preadv_part ::
  "env \<Rightarrow> BlockDriverState \<Rightarrow> u64 \<Rightarrow> u64 \<Rightarrow> nat \<Rightarrow> u64 \<Rightarrow> event list \<Rightarrow>
   (error option outcome \<times> event list) option" where
  "qcow2_preadv_part e st offset bytes qiov qiovOffset tr =
     (if bytes = 0 then Some (Returns None, tr)
      else case qcow2_get_host_offset e offset (ucast bytes) tr of
        (Inl err, tr1) \<Rightarrow> Some (Returns (Some err), tr1)
      | (Inr (curBytes, hostOffset, sctype), tr1) \<Rightarrow>
          if sctype = QCOW2_SUBCLUSTER_ZERO_PLAIN \<or>
             sctype = QCOW2_SUBCLUSTER_ZERO_ALLOC \<or>
             (sctype = QCOW2_SUBCLUSTER_UNALLOCATED_PLAIN \<and> backing st = None) \<or>
             (sctype = QCOW2_SUBCLUSTER_UNALLOCATED_ALLOC \<and> backing st = None)
          then qcow2_preadv_part e st (offset + ucast curBytes) (bytes - ucast curBytes) qiov
                 (qiovOffset + ucast curBytes)
                 (Qemu_Iovec_Memset qiov qiovOffset 0 (ucast curBytes) tr1)
          else (case qcow2_preadv_task e st sctype hostOffset offset bytes qiov qiovOffset tr1 of
                  (Panics, tr2) \<Rightarrow> Some (Panics, tr2)
                | (Returns (Some err), tr2) \<Rightarrow> Some (Returns (Some err), tr2)
                | (Returns None, tr2) \<Rightarrow>
                    qcow2_preadv_part e st (offset + ucast curBytes) (bytes - ucast curBytes) qiov
                      (qiovOffset + ucast curBytes) tr2))"

text \<open>
  One iteration of that loop as a step on what is left of the request (offset, byte
  count, iovec offset, events): \<open>None\<close> when the loop ends there (nothing left, an
  error or a panic), the next loop state otherwise. \<open>preadv_part_reaches\<close> relates a
  loop state to every loop state that iterations lead to.
\<close>

definition preadv_part_next ::
  "env \<Rightarrow> BlockDriverState \<Rightarrow> nat \<Rightarrow> u64 \<times> u64 \<times> u64 \<times> event list \<Rightarrow>
   (u64 \<times> u64 \<times> u64 \<times> event list) option" where
  "preadv_part_next e st qiov s =
     (case s of (offset, bytes, qiovOffset, tr) \<Rightarrow>
        if bytes = 0 then None
        else case qcow2_get_host_offset e offset (ucast bytes) tr of
          (Inl err, tr1) \<Rightarrow> None
        | (Inr (curBytes, hostOffset, sctype), tr1) \<Rightarrow>
            if sctype = QCOW2_SUBCLUSTER_ZERO_PLAIN \<or>
               sctype = QCOW2_SUBCLUSTER_ZERO_ALLOC \<or>
               (sctype = QCOW2_SUBCLUSTER_UNALLOCATED_PLAIN \<and> backing st = None) \<or>
               (sctype = QCOW2_SUBCLUSTER_UNALLOCATED_ALLOC \<and> backing st = None)
            then Some (offset + ucast curBytes, bytes - ucast curBytes,
                       qiovOffset + ucast curBytes,
                       Qemu_Iovec_Memset qiov qiovOffset 0 (ucast curBytes) tr1)
            else (case qcow2_preadv_task e st sctype hostOffset offset bytes qiov qiovOffset tr1 of
                    (Returns None, tr2) \<Rightarrow>
                      Some (offset + ucast curBytes, bytes - ucast curBytes,
                            qiovOffset + ucast curBytes, tr2)
                  | _ \<Rightarrow> None))"

definition preadv_part_reaches ::
  "env \<Rightarrow> BlockDriverState \<Rightarrow> nat \<Rightarrow> u64 \<times> u64 \<times> u64 \<times> event list \<Rightarrow>
   u64 \<times> u64 \<times> u64 \<times> event list \<Rightarrow> bool" where
  "preadv_part_reaches e st qiov = (\<lambda>s s'. preadv_part_next e st qiov s = Some s')\<^sup>*\<^sup>*"

section \<open>Block status\<close>

text \<open>
  What \<open>qcow2_block_status\<close> hands back on success: the status word and the
  out-parameters \<open>*pnum\<close>, \<open>*tmap\<close> and \<open>*file\<close> (\<open>None\<close> when the function does not store to them;
  \<open>*file\<close> receives the handle \<open>s.DataFile.bs\<close>).
\<close>

record block_status_result =
  status :: u64
  out_pnum :: u64
  out_tmap :: "u64 option"
  out_file :: "nat option"

definition qcow2_block_status ::
  "env \<Rightarrow> BlockDriverState \<Rightarrow> bool \<Rightarrow> u64 \<Rightarrow> u64 \<Rightarrow> event list \<Rightarrow>
   (error + block_status_result) outcome \<times> event list" where
  "qcow2_block_status e st wantZero offset cnt tr =
     (case qcow2_get_host_offset e offset (ucast cnt) tr of
        (Inl err, tr1) \<Rightarrow> (Returns (Inl err), tr1)
      | (Inr (bytes, hostOffset, scType), tr1) \<Rightarrow>
          (let r0 = \<lparr> status = 0, out_pnum = ucast bytes, out_tmap = None, out_file = None \<rparr>;
               r1 = (if scType = QCOW2_SUBCLUSTER_NORMAL \<or>
                        scType = QCOW2_SUBCLUSTER_ZERO_ALLOC \<or>
                        scType = QCOW2_SUBCLUSTER_UNALLOCATED_ALLOC
                     then (case DataFile (opaque st) of
                             None \<Rightarrow> Panics
                           | Some df \<Rightarrow>
                               Returns (r0\<lparr> out_tmap := Some hostOffset, out_file := Some (bs df),
                                            status := status r0 OR BDRV_BLOCK_OFFSET_VALID \<rparr>))
                     else Returns r0)
           in case r1 of
                Panics \<Rightarrow> (Panics, tr1)
              | Returns r \<Rightarrow>
                  (Returns (Inr
                     (if scType = QCOW2_SUBCLUSTER_ZERO_PLAIN \<or>
                         scType = QCOW2_SUBCLUSTER_ZERO_ALLOC
                      then r\<lparr>status := status r OR BDRV_BLOCK_ZERO\<rparr>
                      else if scType \<noteq> QCOW2_SUBCLUSTER_UNALLOCATED_PLAIN \<and>
                              scType \<noteq> QCOW2_SUBCLUSTER_UNALLOCATED_ALLOC
                      then r\<lparr>status := status r OR BDRV_BLOCK_DATA\<rparr>
                      else r)), tr1)))"

section \<open>Writing\<close>

text \<open>\<open>s.ClusterAllocs.Remove(e)\<close> of container/list: the element leaves the list.\<close>

definition ClusterAllocs_Remove :: "nat \<Rightarrow> BlockDriverState \<Rightarrow> BlockDriverState" where
  "ClusterAllocs_Remove h st =
     st\<lparr>opaque := (opaque st)\<lparr>ClusterAllocs := remove1 h (ClusterAllocs (opaque st))\<rparr>\<rparr>"

text \<open>
  \<open>qcow2_handle_l2meta\<close>: walks the chain, linking or aborting each \<open>L2Meta\<close> and taking
  it off the in-flight list; a failed link leaves the loop at once. It returns the
  error, the chain left in \<open>*pl2meta\<close>, the state and the events.
\<close>

fun qcow2_handle_l2meta ::
  "env \<Rightarrow> BlockDriverState \<Rightarrow> QCowL2Meta list \<Rightarrow> bool \<Rightarrow> event list \<Rightarrow>
   error option \<times> QCowL2Meta list \<times> BlockDriverState \<times> event list" where
  "qcow2_handle_l2meta e st [] linkL2 tr = (None, [], st, tr)"
| "qcow2_handle_l2meta e st (m # ms) linkL2 tr =
     (if linkL2 then
        (case qcow2_alloc_cluster_link_l2 e m tr of
           (Some err, tr1) \<Rightarrow> (Some err, m # ms, st, tr1)
         | (None, tr1) \<Rightarrow>
             qcow2_handle_l2meta e (ClusterAllocs_Remove (NextInFlight m) st) ms linkL2 tr1)
      else
        qcow2_handle_l2meta e (ClusterAllocs_Remove (NextInFlight m) st) ms linkL2
          (qcow2_alloc_cluster_abort m tr))"

text \<open>
  \<open>is_zero_cow\<close>: both copy-on-write regions are probed; the answer of the first probe
  is returned only with its error.
\<close>

definition is_zero_cow ::
  "env \<Rightarrow> QCowL2Meta \<Rightarrow> event list \<Rightarrow> (bool \<times> error option) \<times> event list" where
  "is_zero_cow e m tr =
     (case bdrv_is_zero_fast e (m_Offset m + Offset (CowStart m)) (NbBytes (CowStart m)) tr of
        ((ret, Some err), tr1) \<Rightarrow> ((ret, Some err), tr1)
      | ((ret, None), tr1) \<Rightarrow>
          bdrv_is_zero_fast e (m_Offset m + Offset (CowEnd m)) (NbBytes (CowEnd m)) tr1)"

text \<open>
  The loop of \<open>handle_alloc_space\<close> over the chain; it returns the error, the chain with
  \<open>SkipCow\<close> set where the zero write succeeded, and the events.
\<close>

fun handle_alloc_space_loop ::
  "env \<Rightarrow> BdrvChild option \<Rightarrow> QCowL2Meta list \<Rightarrow> event list \<Rightarrow>
   error option \<times> QCowL2Meta list \<times> event list" where
  "handle_alloc_space_loop e df [] tr = (None, [], tr)"
| "handle_alloc_space_loop e df (m # ms) tr =
     (let startOffset = AllocOffset m + Offset (CowStart m);
          nbBytes = Offset (CowEnd m) + NbBytes (CowEnd m) - Offset (CowStart m)
      in if NbBytes (CowStart m) = 0 \<and> NbBytes (CowEnd m) = 0 then
           (case handle_alloc_space_loop e df ms tr of (err, ms', tr') \<Rightarrow> (err, m # ms', tr'))
         else
           (case is_zero_cow e m tr of
              ((ret, Some err), tr1) \<Rightarrow> (Some err, m # ms, tr1)
            | ((ret, None), tr1) \<Rightarrow>
                if \<not> ret then
                  (case handle_alloc_space_loop e df ms tr1 of
                     (err, ms', tr') \<Rightarrow> (err, m # ms', tr'))
                else
                  (case bdrv_pwrite_zeroes e df startOffset nbBytes BDRV_REQ_NO_FALLBACK tr1 of
                     (Some err, tr2) \<Rightarrow>
                       if err \<noteq> ERR_ENOTSUP \<and> err \<noteq> ERR_EAGAIN then (Some err, m # ms, tr2)
                       else (case handle_alloc_space_loop e df ms tr2 of
                               (err', ms', tr') \<Rightarrow> (err', m # ms', tr'))
                   | (None, tr2) \<Rightarrow>
                       (case handle_alloc_space_loop e df ms tr2 of
                          (err', ms', tr') \<Rightarrow> (err', m\<lparr>SkipCow := True\<rparr> # ms', tr')))))"

text \<open>\<open>handle_alloc_space\<close>; reading \<open>s.DataFile.bs\<close> through a nil data file panics.\<close>

definition handle_alloc_space ::
  "env \<Rightarrow> BlockDriverState \<Rightarrow> QCowL2Meta list \<Rightarrow> event list \<Rightarrow>
   (error option \<times> QCowL2Meta list \<times> event list) outcome" where
  "handle_alloc_space e st l2meta tr =
     (case DataFile (opaque st) of
        None \<Rightarrow> Panics
      | Some df \<Rightarrow>
          if bs_SupportedZeroFlags df AND BDRV_REQ_NO_FALLBACK = 0 then Returns (None, l2meta, tr)
          else Returns (handle_alloc_space_loop e (Some df) l2meta tr))"

text \<open>
  \<open>merge_cow\<close>: the first \<open>L2Meta\<close> whose copy-on-write regions surround the request
  exactly takes the request's I/O vector; the answer says whether one did.
\<close>

fun merge_cow ::
  "env \<Rightarrow> u64 \<Rightarrow> u64 \<Rightarrow> nat \<Rightarrow> u64 \<Rightarrow> QCowL2Meta list \<Rightarrow> bool \<times> QCowL2Meta list" where
  "merge_cow e offset bytes qiov qiovOffset [] = (False, [])"
| "merge_cow e offset bytes qiov qiovOffset (m # ms) =
     (if (NbBytes (CowStart m) = 0 \<and> NbBytes (CowEnd m) = 0) \<or>
         SkipCow m \<or>
         l2meta_cow_start m + NbBytes (CowStart m) \<noteq> offset \<or>
         m_Offset m + Offset (CowEnd m) \<noteq> offset + bytes \<or>
         Qemu_Iovec_Subvec_Niov e qiov qiovOffset bytes > IOV_MAX - 2
      then (case merge_cow e offset bytes qiov qiovOffset ms of (b, ms') \<Rightarrow> (b, m # ms'))
      else (True, m\<lparr>DataQiov := Some qiov, DataQiovOffset := qiovOffset\<rparr> # ms))"

text \<open>
  \<open>qcow2_pwritev_task\<close>. After the zeroing and the data write it links the chain and
  then, at \<open>out_locked\<close>, calls \<open>qcow2_handle_l2meta\<close> once more with \<open>linkL2 = false\<close> on
  what the first call left; a failure before the link goes to \<open>out_unlocked\<close> and aborts
  the whole chain.
\<close>

definition qcow2_pwritev_task ::
  "env \<Rightarrow> BlockDriverState \<Rightarrow> u64 \<Rightarrow> u64 \<Rightarrow> u64 \<Rightarrow> nat \<Rightarrow> u64 \<Rightarrow> QCowL2Meta list \<Rightarrow>
   event list \<Rightarrow> error option outcome \<times> BlockDriverState \<times> event list" where
  "qcow2_pwritev_task e st hostOffset offset bytes qiov qiovOffset l2meta tr =
     (case handle_alloc_space e st l2meta tr of
        Panics \<Rightarrow> (Panics, st, tr)
      | Returns (Some err, l2meta1, tr1) \<Rightarrow>
          (case qcow2_handle_l2meta e st l2meta1 False tr1 of
             (_, _, st', tr') \<Rightarrow> (Returns (Some err), st', tr'))
      | Returns (None, l2meta1, tr1) \<Rightarrow>
          (case merge_cow e offset bytes qiov qiovOffset l2meta1 of
             (merged, l2meta2) \<Rightarrow>
               (case (if \<not> merged
                      then bdrv_pwritev_part e (DataFile (opaque st)) hostOffset bytes qiov
                             qiovOffset tr1
                      else (None, tr1)) of
                  (Some err, tr2) \<Rightarrow>
                    (case qcow2_handle_l2meta e st l2meta2 False tr2 of
                       (_, _, st', tr') \<Rightarrow> (Returns (Some err), st', tr'))
                | (None, tr2) \<Rightarrow>
                    (case qcow2_handle_l2meta e st l2meta2 True tr2 of
                       (err, l2meta3, st1, tr3) \<Rightarrow>
                         (case qcow2_handle_l2meta e st1 l2meta3 False tr3 of
                            (_, _, st', tr') \<Rightarrow> (Returns err, st', tr'))))))"

text \<open>
  \<open>qcow2_pwritev_part\<close>: the loop over the subranges. \<open>l2meta\<close> is \<open>nil\<close> when the loop
  ends and after every task, so the call at \<open>out_locked\<close> gets the chain of a failed
  \<open>qcow2_alloc_host_offset\<close> or \<open>nil\<close>. The loop need not end (a subrange of zero
  bytes), so the function is partial.
\<close>

partial_function (option) qcow2_pwritev_part ::
  "env \<Rightarrow> BlockDriverState \<Rightarrow> u64 \<Rightarrow> u64 \<Rightarrow> nat \<Rightarrow> u64 \<Rightarrow> event list \<Rightarrow>
   (error option outcome \<times> BlockDriverState \<times> event list) option" where
  "qcow2_pwritev_part e st offset bytes qiov qiovOffset tr =
     (if bytes = 0 then
        (case qcow2_handle_l2meta e st [] False tr of
           (_, _, st', tr') \<Rightarrow> Some (Returns None, st', tr'))
      else case qcow2_alloc_host_offset e (ClusterAllocs (opaque st)) offset bytes tr of
        ((Some err, curBytes, hostOffset, l2meta, allocs), tr1) \<Rightarrow>
          (case qcow2_handle_l2meta e (st\<lparr>opaque := (opaque st)\<lparr>ClusterAllocs := allocs\<rparr>\<rparr>)
                  l2meta False tr1 of
             (_, _, st', tr') \<Rightarrow> Some (Returns (Some err), st', tr'))
      | ((None, curBytes, hostOffset, l2meta, allocs), tr1) \<Rightarrow>
          (case qcow2_pwritev_task e (st\<lparr>opaque := (opaque st)\<lparr>ClusterAllocs := allocs\<rparr>\<rparr>)
                  hostOffset offset curBytes qiov qiovOffset l2meta tr1 of
             (Panics, st2, tr2) \<Rightarrow> Some (Panics, st2, tr2)
           | (Returns (Some err), st2, tr2) \<Rightarrow> Some (Returns (Some err), st2, tr2)
           | (Returns None, st2, tr2) \<Rightarrow>
               qcow2_pwritev_part e st2 (offset + curBytes) (bytes - curBytes) qiov
                 (qiovOffset + curBytes) tr2))"

section \<open>Writing zeroes\<close>

text \<open>
  The loop of \<open>is_zero\<close>: it asks for the block status of what is left until a run is
  not zero, is empty, fails or ends the range. A status run longer than what is left
  wraps \<open>bytes\<close> around, so the loop need not end and the function is partial.
\<close>

partial_function (option) is_zero_loop ::
  "env \<Rightarrow> u64 \<Rightarrow> u64 \<Rightarrow> event list \<Rightarrow> (bool \<times> event list) option" where
  "is_zero_loop e offset bytes tr =
     (case bdrv_block_status_above e offset bytes tr of
        ((res, err, nr), tr1) \<Rightarrow>
          if err = None \<and> res AND BDRV_BLOCK_ZERO > 0 \<and> nr > 0 \<and> bytes - nr > 0
          then is_zero_loop e (offset + nr) (bytes - nr) tr1
          else Some (err = None \<and> res AND BDRV_BLOCK_ZERO > 0 \<and> bytes - nr = 0, tr1))"

definition is_zero ::
  "env \<Rightarrow> BlockDriverState \<Rightarrow> u64 \<Rightarrow> u64 \<Rightarrow> event list \<Rightarrow> (bool \<times> event list) option" where
  "is_zero e st offset bytes tr =
     (let bytes1 = (if offset + bytes > TotalSectors st * BDRV_SECTOR_SIZE
                    then TotalSectors st * BDRV_SECTOR_SIZE - offset else bytes)
      in if bytes1 = 0 then Some (True, tr) else is_zero_loop e offset bytes1 tr)"

text \<open>
  \<open>qcow2_pwrite_zeroes\<close>. \<open>&&\<close> evaluates its second operand only when the first is
  true. In the unaligned branch \<open>bytes\<close> becomes one subcluster, and a subcluster of any
  other type than the four listed returns \<open>err\<close>, which is \<open>nil\<close> there.
\<close>

definition qcow2_pwrite_zeroes ::
  "env \<Rightarrow> BlockDriverState \<Rightarrow> u64 \<Rightarrow> u64 \<Rightarrow> u64 \<Rightarrow> event list \<Rightarrow>
   (error option \<times> event list) option" where
  "qcow2_pwrite_zeroes e st offset bytes flags tr =
     (let s = opaque st;
          head = offset_into_subcluster s offset;
          tail = (if offset + bytes = TotalSectors st * BDRV_SECTOR_SIZE then 0
                  else round_up (offset + bytes) (SubclusterSize s) - (offset + bytes))
      in if head > 0 \<or> tail > 0 then
           (case is_zero e st (offset - head) head tr of
              None \<Rightarrow> None
            | Some (z1, tr1) \<Rightarrow>
                (case (if z1 then is_zero e st (offset + bytes) tail tr1 else Some (False, tr1)) of
                   None \<Rightarrow> None
                 | Some (z2, tr2) \<Rightarrow>
                     if \<not> (z1 \<and> z2) then Some (Some ERR_ENOTSUP, tr2)
                     else (case qcow2_get_host_offset e (offset - head)
                                  (ucast (SubclusterSize s)) tr2 of
                             (Inl err, tr3) \<Rightarrow> Some (Some err, tr3)
                           | (Inr (nr, off, sctype), tr3) \<Rightarrow>
                               if sctype \<noteq> QCOW2_SUBCLUSTER_UNALLOCATED_PLAIN \<and>
                                  sctype \<noteq> QCOW2_SUBCLUSTER_UNALLOCATED_ALLOC \<and>
                                  sctype \<noteq> QCOW2_SUBCLUSTER_ZERO_PLAIN \<and>
                                  sctype \<noteq> QCOW2_SUBCLUSTER_ZERO_ALLOC
                               then Some (None, tr3)
                               else Some (qcow2_subcluster_zeroize e (offset - head)
                                            (SubclusterSize s) flags tr3))))
         else Some (qcow2_subcluster_zeroize e offset bytes flags tr))"

section \<open>Reference definitions\<close>

text \<open>
  The header restrictions as the specification words them: the magic is \<open>QFI\<close> and
  \<open>0xfb\<close> read as a big-endian number, the version is 2 or 3, \<open>cluster_bits\<close> is 16,
  \<open>refcount_order\<close> is 4, \<open>crypt_method\<close> is 0 and the header length does not exceed the
  fixed header size of 112 bytes.
\<close>

definition header_supported :: "QCowHeader \<Rightarrow> bool" where
  "header_supported h \<longleftrightarrow>
     Magic h = 0x514649fb \<and> (Version h = 2 \<or> Version h = 3) \<and> ClusterBits h = 16 \<and>
     RefcountOrder h = 4 \<and> CryptMethod h = 0 \<and> unat (HeaderLength h) \<le> 112"

text \<open>
  The L2 cache capacity as the specification words it: the option divided by the
  cluster size, rounded up, when the option is supplied, and \<open>l1_size\<close> otherwise.
\<close>

definition spec_l2_cache_pages :: "any option \<Rightarrow> u32 \<Rightarrow> nat" where
  "spec_l2_cache_pages opt l1 =
     (case opt of Some (AUint64 v) \<Rightarrow> (unat v + 65535) div 65536 | _ \<Rightarrow> unat l1)"

text \<open>The capacity of the L2 table cache of the state an \<open>open\<close> returned.\<close>

definition opened_l2_pages ::
  "(error + BlockDriverState) outcome \<times> event list \<Rightarrow> nat option" where
  "opened_l2_pages r =
     (case fst r of
        Returns (Inr st) \<Rightarrow> map_option (\<lambda>c. unat (capacity c)) (L2TableCache (opaque st))
      | _ \<Rightarrow> None)"

text \<open>Taking the handles of a chain off the in-flight list, one \<open>Remove\<close> each, in order.\<close>

definition ClusterAllocs_Remove_all :: "nat list \<Rightarrow> BlockDriverState \<Rightarrow> BlockDriverState" where
  "ClusterAllocs_Remove_all hs st = fold ClusterAllocs_Remove hs st"

text \<open>The events that only ask for a block status.\<close>

fun is_block_status_query :: "event \<Rightarrow> bool" where
  "is_block_status_query (Ev_bdrv_block_status_above off n) = True"
| "is_block_status_query _ = False"

text \<open>
  The range of a zero write rounded outward to subcluster boundaries, as the
  specification words it: its start and its length.
\<close>

definition spec_rounded_range :: "BDRVQcow2State \<Rightarrow> u64 \<Rightarrow> u64 \<Rightarrow> u64 \<times> u64" where
  "spec_rounded_range s offset bytes =
     (offset - offset_into_subcluster s offset,
      round_up (offset + bytes) (SubclusterSize s) - (offset - offset_into_subcluster s offset))"

section \<open>A sample image\<close>

text \<open>
  A 1 MiB image without backing file: its header, the child of its data file, an
  environment in which every collaborator succeeds (every range maps to one unallocated
  run that reads as zero, and nothing needs allocation metadata), and its state as
  opened, without and with subclusters.
\<close>

definition child0 :: BdrvChild where
  "child0 = \<lparr> bs = 1, bs_SupportedZeroFlags = 0 \<rparr>"

definition header0 :: QCowHeader where
  "header0 = \<lparr> Magic = 0x514649fb, Version = 3, BackingFileOffset = 0, BackingFileSize = 0,
               ClusterBits = 16, Size = 1048576, CryptMethod = 0, L1Size = 1,
               L1TableOffset = 0x30000, RefcountTableOffset = 0x10000,
               RefcountTableClusters = 1, NbSnapshots = 0, SnapshotsOffset = 0,
               IncompatibleFeatures = 0, CompatibleFeatures = 0, AutoclearFeatures = 0,
               RefcountOrder = 4, HeaderLength = 112, CompressionType = 0 \<rparr>"

definition env0 :: env where
  "env0 = \<lparr> L1_TABLE_OFFSET = 0x30000,
            REFCOUNT_TABLE_OFFSET = 0x10000,
            BACKING_FILE_OFFSET = 0x200,
            DEFAULT_REFCOUNT_TABLE_CLUSTERS = 1,
            REFCOUNT_TABLE_SIZE = 8192,
            interface2uint64 = (\<lambda>v. case v of AUint64 n \<Rightarrow> n | _ \<Rightarrow> 0),
            Qemu_Iovec_Subvec_Niov = (\<lambda>qiov off n. 1),
            bdrv_open_child_res = (\<lambda>tr fname drv flags. Inr child0),
            Blk_Pread_header_res = (\<lambda>tr child. Inr header0),
            Blk_Pread_string_res = (\<lambda>tr child off n. Inr ''base.qcow2''),
            Blk_Pread_table_res = (\<lambda>tr child off n. None),
            Blk_Pwrite_Object_res = (\<lambda>tr child off ob n. None),
            qcow2_refcount_init_res = (\<lambda>tr. None),
            qcow2_alloc_clusters_res = (\<lambda>tr n. None),
            qcow2_get_host_offset_res =
              (\<lambda>tr off n. Inr (n, 0, QCOW2_SUBCLUSTER_UNALLOCATED_PLAIN)),
            bdrv_preadv_part_res = (\<lambda>tr child off n qiov qoff. None),
            bdrv_pwritev_part_res = (\<lambda>tr child off n qiov qoff. None),
            bdrv_pwrite_zeroes_res = (\<lambda>tr child off n flags. None),
            bdrv_is_zero_fast_res = (\<lambda>tr off n. (False, None)),
            bdrv_block_status_above_res = (\<lambda>tr off n. (BDRV_BLOCK_ZERO, None, n)),
            qcow2_alloc_host_offset_res = (\<lambda>tr allocs off n. (None, n, 0x50000, [], allocs)),
            qcow2_alloc_cluster_link_l2_res = (\<lambda>tr m. None),
            qcow2_subcluster_zeroize_res = (\<lambda>tr off n flags. None) \<rparr>"

definition st0 :: BlockDriverState where
  "st0 = \<lparr> filename = ''disk.qcow2'', backingFile = [], backing = None,
           current = Some child0,
           opaque = (initiate_qcow2_state header0 False)\<lparr>DataFile := Some child0\<rparr>,
           SupportedWriteFlags = 0, TotalSectors = 2048 \<rparr>"

definition st0_sc :: BlockDriverState where
  "st0_sc = st0\<lparr>opaque := (initiate_qcow2_state header0 True)\<lparr>DataFile := Some child0\<rparr>\<rparr>"

text \<open>Two \<open>L2Meta\<close> of one write request, without copy-on-write regions.\<close>

definition meta1 :: QCowL2Meta where
  "meta1 = \<lparr> m_Offset = 0, AllocOffset = 0x50000, NbClusters = 1, KeepOldClusters = False,
             CowStart = \<lparr>Offset = 0, NbBytes = 0\<rparr>, CowEnd = \<lparr>Offset = 65536, NbBytes = 0\<rparr>,
             SkipCow = False, DataQiov = None, DataQiovOffset = 0, NextInFlight = 11 \<rparr>"

definition meta2 :: QCowL2Meta where
  "meta2 = meta1\<lparr> m_Offset := 65536, AllocOffset := 0x60000, NextInFlight := 12 \<rparr>"

text \<open>Option maps: a size of 1000 bytes; an L2 cache size of zero; one of 100000 bytes.\<close>

definition options_size :: "string \<rightharpoonup> any" where
  "options_size = [OPT_SIZE \<mapsto> AUint64 1000]"

definition options_l2_zero :: "string \<rightharpoonup> any" where
  "options_l2_zero = [OPT_L2CACHESIZE \<mapsto> AUint64 0]"

definition options_l2_100000 :: "string \<rightharpoonup> any" where
  "options_l2_100000 = [OPT_L2CACHESIZE \<mapsto> AUint64 100000]"

text \<open>
  The sample image with the two \<open>L2Meta\<close> in flight, and an environment in which the
  link of the second one fails.
\<close>

definition st0_in_flight :: BlockDriverState where
  "st0_in_flight = st0\<lparr>opaque := (opaque st0)\<lparr>ClusterAllocs := [12, 11]\<rparr>\<rparr>"

definition env_link_fails :: env where
  "env_link_fails =
     env0\<lparr>qcow2_alloc_cluster_link_l2_res :=
            \<lambda>tr m. if NextInFlight m = 12 then Some (Err_External 5) else None\<rparr>"

text \<open>
  An environment in which the write to the data file fails; and a data file that
  supports \<open>BDRV_REQ_NO_FALLBACK\<close>, an \<open>L2Meta\<close> with a copy-on-write region at its start,
  and an environment in which probing that region for zeroes fails.
\<close>

definition env_write_fails :: env where
  "env_write_fails =
     env0\<lparr>bdrv_pwritev_part_res := \<lambda>tr child off n qiov qoff. Some (Err_External 7)\<rparr>"

definition child_no_fallback :: BdrvChild where
  "child_no_fallback = child0\<lparr>bs_SupportedZeroFlags := BDRV_REQ_NO_FALLBACK\<rparr>"

definition st0_no_fallback :: BlockDriverState where
  "st0_no_fallback =
     st0_in_flight\<lparr>opaque := (opaque st0_in_flight)\<lparr>DataFile := Some child_no_fallback\<rparr>\<rparr>"

definition meta_cow :: QCowL2Meta where
  "meta_cow = meta1\<lparr>CowStart := \<lparr>Offset = 0, NbBytes = 512\<rparr>\<rparr>"

definition env_probe_fails :: env where
  "env_probe_fails =
     env0\<lparr>bdrv_is_zero_fast_res := \<lambda>tr off n. (False, Some (Err_External 9))\<rparr>"

text \<open>
  Environments for reads of two clusters: the first cluster is a \<open>NORMAL\<close> run at host
  offset \<open>0x50000\<close> and the second reads as zero; the first reads as zero and the second
  is compressed.
\<close>

definition env_normal_then_zero :: env where
  "env_normal_then_zero =
     env0\<lparr>qcow2_get_host_offset_res := \<lambda>tr off n.
            if off = 0 then Inr (65536, 0x50000, QCOW2_SUBCLUSTER_NORMAL)
            else Inr (65536, 0, QCOW2_SUBCLUSTER_ZERO_PLAIN)\<rparr>"

definition env_zero_then_compressed :: env where
  "env_zero_then_compressed =
     env0\<lparr>qcow2_get_host_offset_res := \<lambda>tr off n.
            if off = 0 then Inr (65536, 0, QCOW2_SUBCLUSTER_ZERO_PLAIN)
            else Inr (65536, 0x50000, QCOW2_SUBCLUSTER_COMPRESSED)\<rparr>"

section \<open>Verified properties\<close>

subsection \<open>Arithmetic\<close>

text \<open>
  \<open>round_up\<close> in natural numbers, as long as the sum does not wrap around.
\<close>

lemma unat_round_up:
  assumes "0 < unat d" "unat n + unat d \<le> 2 ^ 64"
  shows "unat (round_up n d) = (unat n + unat d - 1) div unat d * unat d"
proof -
  have d1: "unat (d - 1) = unat d - 1"
    using assms(1) unat_minus_one[of d] by (auto simp: unat_gt_0)
  have s: "unat (n + d - 1) = unat n + unat d - 1"
  proof -
    have e: "n + d - 1 = n + (d - 1)" by simp
    have "unat (n + (d - 1)) = unat n + unat (d - 1)"
      using assms d1 by (simp add: unat_add_lem[THEN iffD1])
    then show ?thesis unfolding e using d1 assms(1) by simp
  qed
  have q: "unat ((n + d - 1) div d) = (unat n + unat d - 1) div unat d"
    by (simp add: unat_div s)
  have "(unat n + unat d - 1) div unat d * unat d \<le> unat n + unat d - 1"
    by simp
  then have "(unat n + unat d - 1) div unat d * unat d < 2 ^ 64"
    using assms by linarith
  then have "unat ((n + d - 1) div d * d) = unat ((n + d - 1) div d) * unat d"
    using q by (simp add: unat_mult_lem[THEN iffD1])
  then show ?thesis by (simp add: round_up_def q)
qed

lemma unat_round_up_512:
  assumes "unat s \<le> 2 ^ 64 - 512"
  shows "unat (round_up s DEFAULT_SECTOR_SIZE) = (unat s + 511) div 512 * 512"
  using unat_round_up [of 512 s] assms by (simp add: DEFAULT_SECTOR_SIZE_def)

lemma round_up_nat_bounds:
  fixes n :: nat
  defines "x \<equiv> (n + 511) div 512 * 512"
  shows "512 dvd x" "n \<le> x" "x < n + 512" "512 dvd n \<Longrightarrow> x = n"
proof -
  have e: "x + (n + 511) mod 512 = n + 511"
    unfolding x_def by (rule div_mult_mod_eq)
  have m: "(n + 511) mod 512 < 512" by simp
  show "512 dvd x" unfolding x_def by simp
  show l: "n \<le> x" using e m by linarith
  show g: "x < n + 512" using e by linarith
  show "x = n" if "512 dvd n"
  proof -
    have "512 dvd (x - n)" using that \<open>512 dvd x\<close> by (rule_tac dvd_diff_nat)
    moreover have "x - n < 512" using g l by linarith
    ultimately have "x - n = 0" by (meson dvd_imp_le not_less zero_less_iff_neq_zero)
    then show ?thesis using l by simp
  qed
qed

text \<open>
  No \<open>uint64\<close> is a multiple of 512 at or above \<open>2^64 - 1\<close>, whatever computes it.
\<close>

lemma no_uint64_multiple_of_512_above:
  "\<not> (\<exists>z :: u64. 512 dvd unat z \<and> unat (18446744073709551615 :: u64) \<le> unat z)"
proof
  assume "\<exists>z :: u64. 512 dvd unat z \<and> unat (18446744073709551615 :: u64) \<le> unat z"
  then obtain z :: u64 where d: "512 dvd unat z" and l: "18446744073709551615 \<le> unat z"
    by auto
  have "unat z < 2 ^ 64" using unsigned_less [of z] by simp
  then have "unat z = 18446744073709551615" using l by simp
  then have "(512 :: nat) dvd 18446744073709551615" using d by simp
  then show False by simp
qed

lemma unat_ucast_u32_u64: "unat (ucast (c :: u32) :: u64) = unat c"
proof -
  have "unat c < 2 ^ 32" using unsigned_less [of c] by simp
  then have "unat c < 2 ^ 64" by simp
  then show ?thesis by (simp add: unsigned_ucast_eq take_bit_nat_eq_self)
qed

lemma unat_ucast_u64_u32_le: "unat (ucast (b :: u64) :: u32) \<le> unat b"
  by (simp add: unsigned_ucast_eq)

lemma unat_l2CacehNum_of:
  assumes "0 < v" and "unat v \<le> 4294967295 * 65536"
  shows "unat (l2CacehNum_of v l1) = (unat v + 65535) div 65536"
proof -
  have r: "unat (round_up v DEFAULT_CLUSTER_SIZE) = (unat v + 65535) div 65536 * 65536"
    using unat_round_up [of 65536 v] assms(2) by (simp add: DEFAULT_CLUSTER_SIZE_def)
  have q: "unat (round_up v DEFAULT_CLUSTER_SIZE div DEFAULT_CLUSTER_SIZE) =
             (unat v + 65535) div 65536"
    by (simp add: unat_div r) (simp add: DEFAULT_CLUSTER_SIZE_def)
  have b: "(unat v + 65535) div 65536 < 2 ^ 32"
    using assms(2) by simp
  have "unat (ucast (round_up v DEFAULT_CLUSTER_SIZE div DEFAULT_CLUSTER_SIZE) :: u32) =
          (unat v + 65535) div 65536"
    using b by (simp add: unsigned_ucast_eq q take_bit_nat_eq_self)
  then show ?thesis using assms(1) by (simp add: l2CacehNum_of_def)
qed

text \<open>
  Beyond \<open>(2^32 - 1) * 65536\<close> bytes the page count no longer fits the \<open>uint32\<close> it is
  narrowed to: an L2 cache size of \<open>2^48\<close> bytes gives 0 pages.
\<close>

lemma l2CacehNum_of_truncates: "l2CacehNum_of 281474976710656 l1 = 0"
  by (simp add: l2CacehNum_of_def round_up_def DEFAULT_CLUSTER_SIZE_def)

subsection \<open>Opening an image\<close>

lemma BigEndian_Uint32_QCOW_MAGIC: "BigEndian_Uint32 QCOW_MAGIC = 0x514649fb"
  by (simp add: QCOW_MAGIC_def)

text \<open>\<open>check_Header\<close> accepts exactly the headers within the six restrictions.\<close>

lemma check_Header_None_iff: "check_Header h = None \<longleftrightarrow> header_supported h"
  by (auto simp: check_Header_def header_supported_def BigEndian_Uint32_QCOW_MAGIC
      QCOW2_VERSION2_def QCOW2_VERSION3_def DEFAULT_CLUSTER_BITS_def QCOW2_REFCOUNT_ORDER_def
      QCOW2_CRYPT_METHOD_def Sizeof_QCowHeader_def word_le_nat_alt not_le word_less_nat_alt)

text \<open>
  Claim C5. Once the file is open and its header read, \<open>qcow2_open\<close> returns a state
  only if the header passes all six restrictions (magic, version 2 or 3, 16 cluster bits,
  refcount order 4, no encryption, header length within the fixed header size); a
  header that violates one makes it return an error and no state, provided the
  \<open>l2_cache_size\<close> option, if given, is a \<open>uint64\<close> (the type assertion on it panics
  before the file is opened otherwise).
\<close>

theorem qcow2_open_header_supported:
  assumes opened: "bdrv_open_child e fname ''raw'' flags tr0 = (Inr child, tr1)"
      and rd: "Blk_Pread_header e child (bdrv_set_perm child PERM_ALL tr1) = (Inr header, tr3)"
  shows "(\<forall>st tr'. qcow2_open e fname opts flags tr0 = (Returns (Inr st), tr') \<longrightarrow>
            header_supported header) \<and>
         (\<not> header_supported header \<and>
          (case opts OPT_L2CACHESIZE of None \<Rightarrow> True | Some v \<Rightarrow> assert_uint64 v \<noteq> Panics) \<longrightarrow>
            (\<exists>err tr'. qcow2_open e fname opts flags tr0 = (Returns (Inl err), tr')))"
  using opened rd
  by (auto simp: qcow2_open_def check_Header_None_iff[symmetric]
      split: option.splits outcome.splits)

lemma header0_supported: "header_supported header0"
  by (simp add: header_supported_def header0_def)

lemma open_env0: "\<exists>st tr'. qcow2_open env0 ''disk.qcow2'' Map.empty 0 [] = (Returns (Inr st), tr')"
  by (simp add: qcow2_open_def qcow2_open_checked_def bdrv_open_child_def Blk_Pread_header_def
      env0_def header0_def check_Header_def BigEndian_Uint32_QCOW_MAGIC
      QCOW2_VERSION2_def QCOW2_VERSION3_def DEFAULT_CLUSTER_BITS_def QCOW2_REFCOUNT_ORDER_def
      QCOW2_CRYPT_METHOD_def Sizeof_QCowHeader_def qcow2_refcount_init_def Blk_Pread_table_def
      qcow2_cache_create_def Let_def)

text \<open>
  The sample image opens; with version 4 in its header the same call returns an error.
\<close>

theorem qcow2_open_header_supported_witness:
  "(\<exists>st tr'. qcow2_open env0 ''disk.qcow2'' Map.empty 0 [] = (Returns (Inr st), tr')) \<and>
   header_supported header0 \<and>
   \<not> header_supported (header0\<lparr>Version := 4\<rparr>) \<and>
   (\<exists>err tr'. qcow2_open (env0\<lparr>Blk_Pread_header_res := \<lambda>tr child. Inr (header0\<lparr>Version := 4\<rparr>)\<rparr>)
       ''disk.qcow2'' Map.empty 0 [] = (Returns (Inl err), tr'))"
proof -
  let ?e = "env0\<lparr>Blk_Pread_header_res := \<lambda>tr child. Inr (header0\<lparr>Version := 4\<rparr>)\<rparr>"
  have bad: "\<not> header_supported (header0\<lparr>Version := 4\<rparr>)"
    by (simp add: header_supported_def header0_def)
  have o1: "bdrv_open_child ?e ''disk.qcow2'' ''raw'' 0 [] =
              (Inr child0, [Ev_bdrv_open_child ''disk.qcow2'' ''raw'' 0])"
    by (simp add: bdrv_open_child_def env0_def)
  have r1: "Blk_Pread_header ?e child0
              (bdrv_set_perm child0 PERM_ALL [Ev_bdrv_open_child ''disk.qcow2'' ''raw'' 0]) =
            (Inr (header0\<lparr>Version := 4\<rparr>),
             bdrv_set_perm child0 PERM_ALL [Ev_bdrv_open_child ''disk.qcow2'' ''raw'' 0] @
               [Ev_Blk_Pread_Object (Some child0) 0 (ucast Sizeof_QCowHeader)])"
    by (simp add: Blk_Pread_header_def env0_def)
  have "\<exists>err tr'. qcow2_open ?e ''disk.qcow2'' Map.empty 0 [] = (Returns (Inl err), tr')"
    using qcow2_open_header_supported [OF o1 r1, of Map.empty] bad by simp
  then show ?thesis using open_env0 header0_supported bad by simp
qed

lemma qcow2_open_checked_caches:
  assumes "qcow2_open_checked e fname flags v child header tr = (Returns (Inr st), tr')"
  shows "\<exists>c1 c2. L2TableCache (opaque st) = Some c1 \<and> RefcountBlockCache (opaque st) = Some c2 \<and>
           capacity c1 = l2CacehNum_of v (s_L1Size (opaque st)) \<and>
           capacity c2 = max (capacity c1 div 2) 1"
  using assms unfolding qcow2_open_checked_def Let_def qcow2_cache_create_def
  by (auto split: prod.splits sum.splits option.splits if_splits)

text \<open>
  Claim C7, amended. After a successful open, with \<open>v\<close> the value of the
  \<open>l2_cache_size\<close> option (0 when it is absent): the L2 table cache holds \<open>l1_size\<close>
  pages when \<open>v\<close> is 0, and \<open>v\<close> divided by 65536 and rounded up when \<open>v\<close> is positive
  and at most \<open>(2^32 - 1) * 65536\<close> (beyond that the page count is truncated to 32
  bits); the refcount block cache holds \<open>max(L2 pages / 2, 1)\<close> pages.
\<close>

theorem qcow2_open_cache_capacities:
  assumes "qcow2_open e fname opts flags tr0 = (Returns (Inr st), tr')"
  shows "\<exists>c1 c2 v.
           L2TableCache (opaque st) = Some c1 \<and> RefcountBlockCache (opaque st) = Some c2 \<and>
           (case opts OPT_L2CACHESIZE of None \<Rightarrow> v = 0 | Some a \<Rightarrow> a = AUint64 v) \<and>
           capacity c1 = l2CacehNum_of v (s_L1Size (opaque st)) \<and>
           (v = 0 \<longrightarrow> capacity c1 = s_L1Size (opaque st)) \<and>
           (0 < v \<and> unat v \<le> 4294967295 * 65536 \<longrightarrow>
              unat (capacity c1) = (unat v + 65535) div 65536) \<and>
           capacity c2 = max (capacity c1 div 2) 1"
proof -
  from assms obtain v child header tr3 where
      v: "(case opts OPT_L2CACHESIZE of None \<Rightarrow> Returns 0 | Some val \<Rightarrow> assert_uint64 val) = Returns v"
      and c: "qcow2_open_checked e fname flags v child header tr3 = (Returns (Inr st), tr')"
    unfolding qcow2_open_def
    by (auto split: if_splits outcome.splits prod.splits sum.splits option.splits)
  from qcow2_open_checked_caches [OF c] obtain c1 c2 where
      c1: "L2TableCache (opaque st) = Some c1" and c2: "RefcountBlockCache (opaque st) = Some c2"
      and k1: "capacity c1 = l2CacehNum_of v (s_L1Size (opaque st))"
      and k2: "capacity c2 = max (capacity c1 div 2) 1"
    by blast
  have t: "case opts OPT_L2CACHESIZE of None \<Rightarrow> v = 0 | Some a \<Rightarrow> a = AUint64 v"
  proof (cases "opts OPT_L2CACHESIZE")
    case None
    then show ?thesis using v by simp
  next
    case (Some a)
    then show ?thesis using v by (cases a) simp_all
  qed
  have z: "v = 0 \<longrightarrow> capacity c1 = s_L1Size (opaque st)"
    by (simp add: k1 l2CacehNum_of_def)
  have n: "0 < v \<and> unat v \<le> 4294967295 * 65536 \<longrightarrow>
             unat (capacity c1) = (unat v + 65535) div 65536"
    using unat_l2CacehNum_of [of v] by (simp add: k1)
  show ?thesis using c1 c2 t k1 z n k2 by blast
qed

lemma open_env0_l2_zero:
  "\<exists>st tr'. qcow2_open env0 ''disk.qcow2'' options_l2_zero 0 [] = (Returns (Inr st), tr') \<and>
     map_option capacity (L2TableCache (opaque st)) = Some 1"
  by (simp add: qcow2_open_def qcow2_open_checked_def bdrv_open_child_def Blk_Pread_header_def
      env0_def header0_def check_Header_def BigEndian_Uint32_QCOW_MAGIC
      QCOW2_VERSION2_def QCOW2_VERSION3_def DEFAULT_CLUSTER_BITS_def QCOW2_REFCOUNT_ORDER_def
      QCOW2_CRYPT_METHOD_def Sizeof_QCowHeader_def qcow2_refcount_init_def Blk_Pread_table_def
      qcow2_cache_create_def Let_def options_l2_zero_def l2CacehNum_of_def
      initiate_qcow2_state_def)

text \<open>
  Claim C7 as stated fails when the option is supplied as zero: the sample image
  (\<open>l1_size = 1\<close>) gets an L2 cache of one page, where the rounded-up quotient is 0.
\<close>

theorem qcow2_open_l2_cache_zero_counterexample:
  "opened_l2_pages (qcow2_open env0 ''disk.qcow2'' options_l2_zero 0 []) = Some 1 \<and>
   spec_l2_cache_pages (options_l2_zero OPT_L2CACHESIZE) (L1Size header0) = 0"
proof -
  from open_env0_l2_zero obtain st tr' where
      o: "qcow2_open env0 ''disk.qcow2'' options_l2_zero 0 [] = (Returns (Inr st), tr')"
      and c: "map_option capacity (L2TableCache (opaque st)) = Some 1"
    by blast
  have "opened_l2_pages (qcow2_open env0 ''disk.qcow2'' options_l2_zero 0 []) = Some 1"
    using c by (auto simp: opened_l2_pages_def o)
  moreover have "spec_l2_cache_pages (options_l2_zero OPT_L2CACHESIZE) (L1Size header0) = 0"
    by (simp add: spec_l2_cache_pages_def options_l2_zero_def)
  ultimately show ?thesis by simp
qed

lemma open_env0_l2_100000:
  "\<exists>st tr'. qcow2_open env0 ''disk.qcow2'' options_l2_100000 0 [] = (Returns (Inr st), tr')"
  by (simp add: qcow2_open_def qcow2_open_checked_def bdrv_open_child_def Blk_Pread_header_def
      env0_def header0_def check_Header_def BigEndian_Uint32_QCOW_MAGIC
      QCOW2_VERSION2_def QCOW2_VERSION3_def DEFAULT_CLUSTER_BITS_def QCOW2_REFCOUNT_ORDER_def
      QCOW2_CRYPT_METHOD_def Sizeof_QCowHeader_def qcow2_refcount_init_def Blk_Pread_table_def
      qcow2_cache_create_def Let_def options_l2_100000_def)

text \<open>
  With \<open>l2_cache_size = 100000\<close> the sample image gets an L2 cache of two pages and a
  refcount block cache of one page.
\<close>

theorem qcow2_open_cache_capacities_witness:
  "\<exists>st tr'. qcow2_open env0 ''disk.qcow2'' options_l2_100000 0 [] = (Returns (Inr st), tr') \<and>
     (\<exists>c1 c2. L2TableCache (opaque st) = Some c1 \<and> RefcountBlockCache (opaque st) = Some c2 \<and>
        unat (capacity c1) = 2 \<and> capacity c2 = 1)"
proof -
  from open_env0_l2_100000 obtain st tr' where
      o: "qcow2_open env0 ''disk.qcow2'' options_l2_100000 0 [] = (Returns (Inr st), tr')"
    by blast
  from qcow2_open_cache_capacities [OF o] obtain c1 c2 v where
      c1: "L2TableCache (opaque st) = Some c1" and c2: "RefcountBlockCache (opaque st) = Some c2"
      and t: "case options_l2_100000 OPT_L2CACHESIZE of None \<Rightarrow> v = 0 | Some a \<Rightarrow> a = AUint64 v"
      and n: "0 < v \<and> unat v \<le> 4294967295 * 65536 \<longrightarrow>
                unat (capacity c1) = (unat v + 65535) div 65536"
      and k2: "capacity c2 = max (capacity c1 div 2) 1"
    by blast
  have v: "v = 100000" using t by (simp add: options_l2_100000_def)
  have u: "unat (capacity c1) = 2" using n unfolding v by simp
  then have "capacity c1 = 2" by (simp add: word_unat_eq_iff)
  then have "capacity c2 = 1" using k2 by simp
  then show ?thesis using o c1 c2 u by blast
qed

subsection \<open>Creating an image\<close>

lemmas OPT_defs = OPT_SIZE_def OPT_BACKING_def OPT_SUBCLUSTER_def OPT_L2CACHESIZE_def

lemma qcow2_create_image_trace:
  "\<exists>rest. snd (qcow2_create_image e fname s bfile sc child tr1) =
     tr1 @ Ev_bdrv_link_child child fname #
       Ev_Blk_Pwrite_Object (Some child) 0 (Obj_header (qcow2_create_header e s bfile sc)) 112 #
       rest"
  unfolding qcow2_create_image_def Let_def bdrv_link_child_def Blk_Pwrite_Object_def
      qcow2_cache_create_def bdrv_flush_def qcow2_alloc_clusters_def qcow2_close_def
      qcow2_cache_flush_def qcow2_cache_destroy_def Sizeof_QCowHeader_def
  by (simp split: option.splits)

lemma qcow2_create_opens:
  assumes "fname \<noteq> []" and "options OPT_SIZE = Some val"
  shows "qcow2_create e fname options tr = (Panics, tr) \<or>
         (\<exists>tr'. snd (qcow2_create e fname options tr) =
                   tr @ Ev_bdrv_open_child fname ''raw'' 66 # tr')"
proof (cases "case options OPT_BACKING of None \<Rightarrow> Returns [] | Some v \<Rightarrow> assert_string v")
  case Panics
  then show ?thesis using assms by (simp add: qcow2_create_def)
next
  case (Returns bfile)
  note bk = this
  show ?thesis
  proof (cases "case options OPT_SUBCLUSTER of None \<Rightarrow> Returns False | Some v \<Rightarrow> assert_bool v")
    case Panics
    then show ?thesis using assms bk by (simp add: qcow2_create_def)
  next
    case (Returns enableSc)
    note sc = this
    obtain r tr1 where o: "bdrv_open_child e fname ''raw'' 66 tr = (r, tr1)"
      by (cases "bdrv_open_child e fname ''raw'' 66 tr")
    then have t1: "tr1 = tr @ [Ev_bdrv_open_child fname ''raw'' 66]"
      by (simp add: bdrv_open_child_def)
    show ?thesis
    proof (cases r)
      case (Inl err)
      then show ?thesis using assms bk sc o t1 by (simp add: qcow2_create_def)
    next
      case (Inr child)
      have c: "qcow2_create e fname options tr =
                 qcow2_create_image e fname (interface2uint64 e val) bfile enableSc child
                   (bdrv_set_perm child PERM_ALL tr1)"
        using assms bk sc o Inr unfolding qcow2_create_def by simp
      obtain rest where "snd (qcow2_create e fname options tr) =
          bdrv_set_perm child PERM_ALL tr1 @ rest"
        using qcow2_create_image_trace [of e fname "interface2uint64 e val" bfile enableSc child
                "bdrv_set_perm child PERM_ALL tr1"]
        unfolding c by blast
      then have "snd (qcow2_create e fname options tr) =
          tr @ Ev_bdrv_open_child fname ''raw'' 66 # Ev_bdrv_set_perm child PERM_ALL # rest"
        unfolding t1 bdrv_set_perm_def by simp
      then show ?thesis by blast
    qed
  qed
qed

text \<open>
  Claim C6. Without a file name or without the \<open>size\<close> option, \<open>qcow2_create\<close> returns
  \<open>Err_IncompleteParameters\<close> and has called no collaborator (the event list is
  unchanged: no file is opened or written). With both, it goes past the check: it
  either panics on an ill-typed \<open>backing\<close> or \<open>subcluster\<close> option or its next call
  opens the file.
\<close>

theorem qcow2_create_requires_size:
  "(fname = [] \<or> options OPT_SIZE = None \<longrightarrow>
      qcow2_create e fname options tr = (Returns (Some Err_IncompleteParameters), tr)) \<and>
   (fname \<noteq> [] \<and> options OPT_SIZE \<noteq> None \<longrightarrow>
      qcow2_create e fname options tr = (Panics, tr) \<or>
      (\<exists>tr'. snd (qcow2_create e fname options tr) =
                tr @ Ev_bdrv_open_child fname ''raw'' 66 # tr'))"
proof -
  have "qcow2_create e fname options tr = (Returns (Some Err_IncompleteParameters), tr)"
    if "fname = [] \<or> options OPT_SIZE = None"
    using that by (auto simp: qcow2_create_def)
  then show ?thesis using qcow2_create_opens [of fname options _ e tr] by blast
qed

text \<open>
  Without options, and with a size but no file name, the sample create returns
  \<open>Err_IncompleteParameters\<close>; with a name and a size it opens the file.
\<close>

theorem qcow2_create_requires_size_witness:
  "qcow2_create env0 ''disk.qcow2'' Map.empty [] = (Returns (Some Err_IncompleteParameters), []) \<and>
   qcow2_create env0 [] options_size [] = (Returns (Some Err_IncompleteParameters), []) \<and>
   (\<exists>tr'. snd (qcow2_create env0 ''disk.qcow2'' options_size []) =
            Ev_bdrv_open_child ''disk.qcow2'' ''raw'' 66 # tr')"
proof -
  have np: "qcow2_create env0 ''disk.qcow2'' options_size [] \<noteq> (Panics, [])"
    by (simp add: qcow2_create_def OPT_defs options_size_def bdrv_open_child_def env0_def
        qcow2_create_image_def Let_def Blk_Pwrite_Object_def qcow2_cache_create_def
        qcow2_alloc_clusters_def)
  have sz: "options_size OPT_SIZE \<noteq> None" by (simp add: options_size_def)
  show ?thesis
    using qcow2_create_requires_size [of "''disk.qcow2''" Map.empty env0 "[]"]
      qcow2_create_requires_size [of "[]" options_size env0 "[]"]
      qcow2_create_requires_size [of "''disk.qcow2''" options_size env0 "[]"] np sz
    by simp
qed

lemma Size_qcow2_create_header:
  "Size (qcow2_create_header e s bfile sc) = round_up s DEFAULT_SECTOR_SIZE"
  by (simp add: qcow2_create_header_def Let_def)

text \<open>
  Claim C10, amended. For a create whose size option converts to \<open>s\<close> with
  \<open>s \<le> 2^64 - 512\<close>, once the file is open the fourth call writes, at offset 0, the
  header of \<open>qcow2_create_header\<close>, whose \<open>Size\<close> is a multiple of 512, at least \<open>s\<close>,
  less than \<open>s + 512\<close>, and \<open>s\<close> itself when \<open>s\<close> is a multiple of 512.
\<close>

theorem qcow2_create_size_rounded:
  assumes name: "fname \<noteq> []"
      and sz: "options OPT_SIZE = Some val"
      and bk: "(case options OPT_BACKING of None \<Rightarrow> Returns [] | Some v \<Rightarrow> assert_string v) =
                 Returns bfile"
      and sc: "(case options OPT_SUBCLUSTER of None \<Rightarrow> Returns False | Some v \<Rightarrow> assert_bool v) =
                 Returns enableSc"
      and opened: "bdrv_open_child e fname ''raw'' 66 tr0 = (Inr child, tr1)"
      and small: "unat (interface2uint64 e val) \<le> 2 ^ 64 - 512"
  shows "\<exists>h rest.
           snd (qcow2_create e fname options tr0) =
             tr1 @ Ev_bdrv_set_perm child PERM_ALL # Ev_bdrv_link_child child fname #
               Ev_Blk_Pwrite_Object (Some child) 0 (Obj_header h) 112 # rest \<and>
           h = qcow2_create_header e (interface2uint64 e val) bfile enableSc \<and>
           512 dvd unat (Size h) \<and>
           unat (interface2uint64 e val) \<le> unat (Size h) \<and>
           unat (Size h) < unat (interface2uint64 e val) + 512 \<and>
           (512 dvd unat (interface2uint64 e val) \<longrightarrow> Size h = interface2uint64 e val)"
proof -
  define s where "s = interface2uint64 e val"
  define h where "h = qcow2_create_header e s bfile enableSc"
  have u: "unat (Size h) = (unat s + 511) div 512 * 512"
    using small by (simp add: h_def s_def Size_qcow2_create_header unat_round_up_512)
  have c: "qcow2_create e fname options tr0 =
             qcow2_create_image e fname s bfile enableSc child (bdrv_set_perm child PERM_ALL tr1)"
    using name sz bk sc opened unfolding qcow2_create_def s_def by simp
  obtain rest where r: "snd (qcow2_create e fname options tr0) =
      bdrv_set_perm child PERM_ALL tr1 @ Ev_bdrv_link_child child fname #
        Ev_Blk_Pwrite_Object (Some child) 0 (Obj_header h) 112 # rest"
    using qcow2_create_image_trace [of e fname s bfile enableSc child "bdrv_set_perm child PERM_ALL tr1"]
    unfolding c h_def by blast
  have r': "snd (qcow2_create e fname options tr0) =
      tr1 @ Ev_bdrv_set_perm child PERM_ALL # Ev_bdrv_link_child child fname #
        Ev_Blk_Pwrite_Object (Some child) 0 (Obj_header h) 112 # rest"
    unfolding r bdrv_set_perm_def by simp
  have d: "512 dvd unat (Size h)" unfolding u by (rule round_up_nat_bounds)
  have l: "unat s \<le> unat (Size h)" unfolding u by (rule round_up_nat_bounds)
  have g: "unat (Size h) < unat s + 512" unfolding u by (rule round_up_nat_bounds)
  have i: "Size h = s" if "512 dvd unat s"
  proof -
    have "unat (Size h) = unat s" unfolding u using that by (rule round_up_nat_bounds)
    then show ?thesis by (simp add: word_unat_eq_iff)
  qed
  have "snd (qcow2_create e fname options tr0) =
             tr1 @ Ev_bdrv_set_perm child PERM_ALL # Ev_bdrv_link_child child fname #
               Ev_Blk_Pwrite_Object (Some child) 0 (Obj_header h) 112 # rest \<and>
           h = qcow2_create_header e s bfile enableSc \<and>
           512 dvd unat (Size h) \<and> unat s \<le> unat (Size h) \<and>
           unat (Size h) < unat s + 512 \<and> (512 dvd unat s \<longrightarrow> Size h = s)"
    using r' d l g i h_def by blast
  then show ?thesis unfolding s_def by blast
qed

text \<open>A requested size of 1000 bytes is recorded as 1024.\<close>

theorem qcow2_create_size_rounded_witness:
  "''disk.qcow2'' \<noteq> [] \<and>
   options_size OPT_SIZE = Some (AUint64 1000) \<and>
   bdrv_open_child env0 ''disk.qcow2'' ''raw'' 66 [] =
     (Inr child0, [Ev_bdrv_open_child ''disk.qcow2'' ''raw'' 66]) \<and>
   unat (interface2uint64 env0 (AUint64 1000)) \<le> 2 ^ 64 - 512 \<and>
   (\<exists>rest. snd (qcow2_create env0 ''disk.qcow2'' options_size []) =
      [Ev_bdrv_open_child ''disk.qcow2'' ''raw'' 66, Ev_bdrv_set_perm child0 PERM_ALL,
       Ev_bdrv_link_child child0 ''disk.qcow2'',
       Ev_Blk_Pwrite_Object (Some child0) 0
         (Obj_header (qcow2_create_header env0 1000 [] False)) 112] @ rest) \<and>
   512 dvd unat (Size (qcow2_create_header env0 1000 [] False)) \<and>
   1000 \<le> unat (Size (qcow2_create_header env0 1000 [] False)) \<and>
   unat (Size (qcow2_create_header env0 1000 [] False)) < 1512 \<and>
   Size (qcow2_create_header env0 1000 [] False) = 1024"
proof -
  have name: "''disk.qcow2'' \<noteq> []" by simp
  have sz: "options_size OPT_SIZE = Some (AUint64 1000)" by (simp add: options_size_def)
  have bk: "(case options_size OPT_BACKING of None \<Rightarrow> Returns [] | Some v \<Rightarrow> assert_string v) =
              Returns []"
    by (simp add: OPT_defs options_size_def)
  have sc: "(case options_size OPT_SUBCLUSTER of None \<Rightarrow> Returns False
             | Some v \<Rightarrow> assert_bool v) = Returns False"
    by (simp add: OPT_defs options_size_def)
  have opened: "bdrv_open_child env0 ''disk.qcow2'' ''raw'' 66 [] =
     (Inr child0, [Ev_bdrv_open_child ''disk.qcow2'' ''raw'' 66])"
    by (simp add: bdrv_open_child_def env0_def)
  have i: "interface2uint64 env0 (AUint64 1000) = 1000" by (simp add: env0_def)
  have small: "unat (interface2uint64 env0 (AUint64 1000)) \<le> 2 ^ 64 - 512"
    unfolding i by simp
  have v: "Size (qcow2_create_header env0 1000 [] False) = 1024"
    by (simp add: Size_qcow2_create_header round_up_def DEFAULT_SECTOR_SIZE_def)
  from qcow2_create_size_rounded [OF name sz bk sc opened small]
  show ?thesis using name sz opened small v unfolding i by auto
qed

text \<open>
  Claim C10 as stated fails at the top of the \<open>uint64\<close> range: for a requested size of
  \<open>2^64 - 1\<close> bytes the rounding wraps around and the header records a size of 0. No
  \<open>uint64\<close> multiple of 512 lies at or above \<open>2^64 - 1\<close>.
\<close>

theorem qcow2_create_size_wraps_counterexample:
  "Size (qcow2_create_header env0 18446744073709551615 [] False) = 0"
  by (simp add: Size_qcow2_create_header round_up_def DEFAULT_SECTOR_SIZE_def)

subsection \<open>Reading\<close>

text \<open>
  The read loop gives the same result from a loop state and from every state its
  iterations lead to.
\<close>

lemma preadv_part_next_eq:
  assumes "preadv_part_next e st qiov (offset, bytes, qiovOffset, tr) =
             Some (offset', bytes', qiovOffset', tr')"
  shows "qcow2_preadv_part e st offset bytes qiov qiovOffset tr =
           qcow2_preadv_part e st offset' bytes' qiov qiovOffset' tr'"
  using assms
  by (subst qcow2_preadv_part.simps)
     (auto simp: preadv_part_next_def split: if_splits prod.splits sum.splits outcome.splits
        option.splits)

lemma preadv_part_reaches_eq:
  assumes "preadv_part_reaches e st qiov s s'"
  shows "(case s of (offset, bytes, qiovOffset, tr) \<Rightarrow>
            qcow2_preadv_part e st offset bytes qiov qiovOffset tr) =
         (case s' of (offset, bytes, qiovOffset, tr) \<Rightarrow>
            qcow2_preadv_part e st offset bytes qiov qiovOffset tr)"
  using assms unfolding preadv_part_reaches_def
proof (induction rule: rtranclp_induct)
  case base
  show ?case by simp
next
  case (step y z)
  obtain o1 b1 q1 t1 where y: "y = (o1, b1, q1, t1)" by (cases y) auto
  obtain o2 b2 q2 t2 where z: "z = (o2, b2, q2, t2)" by (cases z) auto
  from step.hyps(2) have "qcow2_preadv_part e st o1 b1 qiov q1 t1 =
                          qcow2_preadv_part e st o2 b2 qiov q2 t2"
    unfolding y z by (rule preadv_part_next_eq)
  with step.IH show ?case by (simp add: y z)
qed

text \<open>
  What one iteration of the read loop does with the run \<open>(n, h, t)\<close> the engine returns:
  a zero run, or an unallocated one without backing file, is a memset of \<open>n\<close> bytes; an
  unallocated run with backing file is a read from the backing file at the guest
  offset, a \<open>NORMAL\<close> run a read from the data file at \<open>h\<close>, both of \<open>bytes\<close> bytes, all
  that is left of the request; every other type ends the loop. The loop goes on \<open>n\<close>
  bytes further.
\<close>

lemma preadv_part_next_run:
  assumes "bytes \<noteq> 0"
      and "qcow2_get_host_offset e offset (ucast bytes) tr = (Inr (n, h, t), tr1)"
  shows "preadv_part_next e st qiov (offset, bytes, qiovOffset, tr) =
           (if t = QCOW2_SUBCLUSTER_ZERO_PLAIN \<or> t = QCOW2_SUBCLUSTER_ZERO_ALLOC \<or>
               ((t = QCOW2_SUBCLUSTER_UNALLOCATED_PLAIN \<or> t = QCOW2_SUBCLUSTER_UNALLOCATED_ALLOC) \<and>
                backing st = None)
            then Some (offset + ucast n, bytes - ucast n, qiovOffset + ucast n,
                       tr1 @ [Ev_Qemu_Iovec_Memset qiov qiovOffset 0 (ucast n)])
            else if t = QCOW2_SUBCLUSTER_UNALLOCATED_PLAIN \<or> t = QCOW2_SUBCLUSTER_UNALLOCATED_ALLOC
            then (case bdrv_preadv_part_res e tr1 (backing st) offset bytes qiov qiovOffset of
                    None \<Rightarrow> Some (offset + ucast n, bytes - ucast n, qiovOffset + ucast n,
                              tr1 @ [Ev_bdrv_preadv_part (backing st) offset bytes qiov qiovOffset])
                  | Some err \<Rightarrow> None)
            else if t = QCOW2_SUBCLUSTER_NORMAL
            then (case bdrv_preadv_part_res e tr1 (DataFile (opaque st)) h bytes qiov qiovOffset of
                    None \<Rightarrow> Some (offset + ucast n, bytes - ucast n, qiovOffset + ucast n,
                              tr1 @ [Ev_bdrv_preadv_part (DataFile (opaque st)) h bytes qiov
                                       qiovOffset])
                  | Some err \<Rightarrow> None)
            else None)"
  using assms
  by (cases t)
     (auto simp: preadv_part_next_def Qemu_Iovec_Memset_def bdrv_preadv_part_def
        split: option.splits)

text \<open>
  The read loop returns whenever the cluster-map engine answers with runs of at least
  one byte and at most the bytes asked for.
\<close>

lemma qcow2_preadv_part_returns:
  assumes sane: "\<And>tr off n c h t. qcow2_get_host_offset_res e tr off n = Inr (c, h, t) \<Longrightarrow>
                   0 < c \<and> c \<le> n"
  shows "\<exists>r. qcow2_preadv_part e st offset bytes qiov qiovOffset tr = Some r"
proof (induction "unat bytes" arbitrary: offset bytes qiovOffset tr rule: less_induct)
  case less
  show ?case
  proof (cases "bytes = 0")
    case True
    then show ?thesis by (subst qcow2_preadv_part.simps) simp
  next
    case False
    show ?thesis
    proof (cases "qcow2_get_host_offset_res e tr offset (ucast bytes)")
      case (Inl err)
      then show ?thesis
        using False by (subst qcow2_preadv_part.simps) (simp add: qcow2_get_host_offset_def)
    next
      case (Inr r)
      obtain c h t where r: "r = (c, h, t)" by (cases r) auto
      from sane [of tr offset "ucast bytes" c h t] Inr r
      have c: "0 < c" "c \<le> ucast bytes" by simp_all
      have cb: "(ucast c :: u64) \<le> bytes"
      proof -
        have "unat c \<le> unat (ucast bytes :: u32)" using c(2) by (simp add: word_le_nat_alt)
        also have "\<dots> \<le> unat bytes" by (rule unat_ucast_u64_u32_le)
        finally show ?thesis by (simp add: word_le_nat_alt unat_ucast_u32_u64)
      qed
      have c0: "0 < (ucast c :: u64)"
        using c(1) by (simp add: word_less_nat_alt unat_ucast_u32_u64)
      have d: "unat (bytes - ucast c) < unat bytes"
        using cb c0 by (simp add: unat_sub word_less_nat_alt word_le_nat_alt)
      note IH = less.hyps [OF d]
      show ?thesis
        using False Inr r IH
        by (subst qcow2_preadv_part.simps)
           (auto simp: qcow2_get_host_offset_def split: prod.splits outcome.splits option.splits)
    qed
  qed
qed

text \<open>
  Claim C8. When a read, after any number of iterations of its loop, gets a run of
  type \<open>COMPRESSED\<close> from the cluster-map engine, the task panics without any I/O (no
  event is added), and \<open>qcow2_preadv_part\<close> ends in that panic: the read does not
  return.
\<close>

theorem qcow2_preadv_compressed_panics:
  assumes reach: "preadv_part_reaches e st qiov (offset0, bytes0, qiovOffset0, tr0)
                    (offset, bytes, qiovOffset, tr)"
      and left: "bytes \<noteq> 0"
      and run: "qcow2_get_host_offset e offset (ucast bytes) tr =
                  (Inr (n, h, QCOW2_SUBCLUSTER_COMPRESSED), tr1)"
  shows "qcow2_preadv_task e st QCOW2_SUBCLUSTER_COMPRESSED h offset bytes qiov qiovOffset tr1 =
           (Panics, tr1) \<and>
         qcow2_preadv_part e st offset0 bytes0 qiov qiovOffset0 tr0 = Some (Panics, tr1)"
proof -
  have "qcow2_preadv_part e st offset bytes qiov qiovOffset tr = Some (Panics, tr1)"
    using left run by (subst qcow2_preadv_part.simps) simp
  moreover have "qcow2_preadv_part e st offset0 bytes0 qiov qiovOffset0 tr0 =
                 qcow2_preadv_part e st offset bytes qiov qiovOffset tr"
    using preadv_part_reaches_eq [OF reach] by simp
  ultimately show ?thesis by simp
qed

text \<open>
  A read of two clusters, the first reading as zero and the second compressed, fills
  the first 64 KiB of the buffer and then panics.
\<close>

theorem qcow2_preadv_compressed_panics_witness:
  "preadv_part_reaches env_zero_then_compressed st0 7 (0, 131072, 0, [])
     (65536, 65536, 65536,
      [Ev_qcow2_get_host_offset 0 131072, Ev_Qemu_Iovec_Memset 7 0 0 65536]) \<and>
   (65536 :: u64) \<noteq> 0 \<and>
   qcow2_preadv_part env_zero_then_compressed st0 0 131072 7 0 [] =
     Some (Panics, [Ev_qcow2_get_host_offset 0 131072, Ev_Qemu_Iovec_Memset 7 0 0 65536,
                    Ev_qcow2_get_host_offset 65536 65536])"
proof -
  let ?e = env_zero_then_compressed
  let ?tr = "[Ev_qcow2_get_host_offset 0 131072, Ev_Qemu_Iovec_Memset 7 0 0 65536]"
  have r0: "qcow2_get_host_offset ?e 0 (ucast (131072 :: u64)) [] =
              (Inr (65536, 0, QCOW2_SUBCLUSTER_ZERO_PLAIN), [Ev_qcow2_get_host_offset 0 131072])"
    by (simp add: qcow2_get_host_offset_def env_zero_then_compressed_def)
  have "preadv_part_next ?e st0 7 (0, 131072, 0, []) = Some (65536, 65536, 65536, ?tr)"
    using preadv_part_next_run [OF _ r0, of st0 7 0] by simp
  then have reach: "preadv_part_reaches ?e st0 7 (0, 131072, 0, []) (65536, 65536, 65536, ?tr)"
    unfolding preadv_part_reaches_def by (rule r_into_rtranclp)
  have nz: "(65536 :: u64) \<noteq> 0" by simp
  have run: "qcow2_get_host_offset ?e 65536 (ucast (65536 :: u64)) ?tr =
     (Inr (65536, 0x50000, QCOW2_SUBCLUSTER_COMPRESSED), ?tr @ [Ev_qcow2_get_host_offset 65536 65536])"
    by (simp add: qcow2_get_host_offset_def env_zero_then_compressed_def)
  from qcow2_preadv_compressed_panics [OF reach nz run] reach nz show ?thesis by simp
qed

text \<open>
  Claim C1 at a request of two runs. The engine maps the first 64 KiB of a 128 KiB
  read to a \<open>NORMAL\<close> run at host offset \<open>0x50000\<close> and the second 64 KiB to a
  \<open>ZERO_PLAIN\<close> run. The loop dispatches by type and advances by the run's byte count
  (the second lookup is at 65536 for 65536 bytes, the memset fills 65536 bytes at
  iovec offset 65536), but the read from the data file is issued for 131072 bytes,
  the whole request, not for the 65536 bytes of the run.
\<close>

theorem qcow2_preadv_part_reads_whole_request:
  "qcow2_preadv_part env_normal_then_zero st0 0 131072 7 0 [] =
   Some (Returns None,
     [Ev_qcow2_get_host_offset 0 131072,
      Ev_bdrv_preadv_part (Some child0) 0x50000 131072 7 0,
      Ev_qcow2_get_host_offset 65536 65536,
      Ev_Qemu_Iovec_Memset 7 65536 0 65536])"
  by (simp add: qcow2_preadv_part.simps qcow2_get_host_offset_def bdrv_preadv_part_def
      Qemu_Iovec_Memset_def env_normal_then_zero_def env0_def st0_def)

subsection \<open>Block status\<close>

text \<open>
  Claim C4, amended. For a run of \<open>n\<close> bytes at host offset \<open>h\<close> with type \<open>t\<close>, a block
  status query on an image with a data file succeeds with \<open>*pnum = n\<close>; \<open>ZERO\<close> is set
  exactly for the two zero types; \<open>DATA\<close> is set exactly for every type that is neither
  zero nor unallocated, which are \<open>NORMAL\<close>, \<open>COMPRESSED\<close> and \<open>INVALID\<close>; \<open>OFFSET_VALID\<close> is
  set, and the host offset and data-file handle are stored, exactly for \<open>NORMAL\<close>,
  \<open>ZERO_ALLOC\<close> and \<open>UNALLOCATED_ALLOC\<close>.
\<close>

theorem qcow2_block_status_flags:
  assumes run: "qcow2_get_host_offset e offset (ucast cnt) tr = (Inr (n, h, t), tr1)"
      and df: "DataFile (opaque st) = Some df"
  shows "\<exists>r. qcow2_block_status e st wantZero offset cnt tr = (Returns (Inr r), tr1) \<and>
           out_pnum r = ucast n \<and>
           (status r AND BDRV_BLOCK_ZERO \<noteq> 0 \<longleftrightarrow>
              t = QCOW2_SUBCLUSTER_ZERO_PLAIN \<or> t = QCOW2_SUBCLUSTER_ZERO_ALLOC) \<and>
           (status r AND BDRV_BLOCK_DATA \<noteq> 0 \<longleftrightarrow>
              t = QCOW2_SUBCLUSTER_NORMAL \<or> t = QCOW2_SUBCLUSTER_COMPRESSED \<or>
              t = QCOW2_SUBCLUSTER_INVALID) \<and>
           (status r AND BDRV_BLOCK_OFFSET_VALID \<noteq> 0 \<longleftrightarrow>
              t = QCOW2_SUBCLUSTER_NORMAL \<or> t = QCOW2_SUBCLUSTER_ZERO_ALLOC \<or>
              t = QCOW2_SUBCLUSTER_UNALLOCATED_ALLOC) \<and>
           (out_tmap r, out_file r) =
              (if t = QCOW2_SUBCLUSTER_NORMAL \<or> t = QCOW2_SUBCLUSTER_ZERO_ALLOC \<or>
                  t = QCOW2_SUBCLUSTER_UNALLOCATED_ALLOC
               then (Some h, Some (bs df)) else (None, None))"
  using run df
  by (cases t)
     (simp_all add: qcow2_block_status_def BDRV_BLOCK_ZERO_def BDRV_BLOCK_DATA_def
        BDRV_BLOCK_OFFSET_VALID_def)

text \<open>
  On the sample image a query over the first cluster reports an unallocated run: no
  flag, no host offset.
\<close>

theorem qcow2_block_status_flags_witness:
  "qcow2_get_host_offset env0 0 (ucast (65536 :: u64)) [] =
     (Inr (65536, 0, QCOW2_SUBCLUSTER_UNALLOCATED_PLAIN), [Ev_qcow2_get_host_offset 0 65536]) \<and>
   DataFile (opaque st0) = Some child0 \<and>
   (\<exists>r. qcow2_block_status env0 st0 False 0 65536 [] =
          (Returns (Inr r), [Ev_qcow2_get_host_offset 0 65536]) \<and>
        out_pnum r = 65536 \<and> status r AND BDRV_BLOCK_ZERO = 0 \<and>
        status r AND BDRV_BLOCK_DATA = 0 \<and> status r AND BDRV_BLOCK_OFFSET_VALID = 0 \<and>
        out_tmap r = None \<and> out_file r = None)"
proof -
  have run: "qcow2_get_host_offset env0 0 (ucast (65536 :: u64)) [] =
     (Inr (65536, 0, QCOW2_SUBCLUSTER_UNALLOCATED_PLAIN), [Ev_qcow2_get_host_offset 0 65536])"
    by (simp add: qcow2_get_host_offset_def env0_def)
  have df: "DataFile (opaque st0) = Some child0"
    by (simp add: st0_def)
  from qcow2_block_status_flags [OF run df, of False] run df show ?thesis
    by simp
qed

text \<open>
  Claim C4 as stated fails for a run of type \<open>INVALID\<close>: the status carries \<open>DATA\<close>
  although the type is neither \<open>NORMAL\<close> nor \<open>COMPRESSED\<close>.
\<close>

theorem qcow2_block_status_invalid_counterexample:
  "qcow2_block_status
     (env0\<lparr>qcow2_get_host_offset_res := \<lambda>tr off n. Inr (n, 0, QCOW2_SUBCLUSTER_INVALID)\<rparr>)
     st0 False 0 65536 [] =
   (Returns (Inr \<lparr>status = BDRV_BLOCK_DATA, out_pnum = 65536, out_tmap = None,
                  out_file = None\<rparr>),
    [Ev_qcow2_get_host_offset 0 65536])"
  by (simp add: qcow2_block_status_def qcow2_get_host_offset_def env0_def)

subsection \<open>Writing\<close>

lemma ClusterAllocs_Remove_all_append:
  "ClusterAllocs_Remove_all (hs @ ks) st = ClusterAllocs_Remove_all ks (ClusterAllocs_Remove_all hs st)"
  by (simp add: ClusterAllocs_Remove_all_def)

lemma ClusterAllocs_Remove_all_Cons:
  "ClusterAllocs_Remove_all (h # hs) st = ClusterAllocs_Remove_all hs (ClusterAllocs_Remove h st)"
  by (simp add: ClusterAllocs_Remove_all_def)

lemma ClusterAllocs_Remove_all_Nil: "ClusterAllocs_Remove_all [] st = st"
  by (simp add: ClusterAllocs_Remove_all_def)



text \<open>
  \<open>qcow2_handle_l2meta\<close> with \<open>linkL2 = false\<close> aborts the whole chain; with
  \<open>linkL2 = true\<close> it links a front part of the chain and leaves the rest, which is
  empty exactly when no link failed. Each handled \<open>L2Meta\<close> leaves the in-flight list.
\<close>

lemma qcow2_handle_l2meta_abort:
  "qcow2_handle_l2meta e st ms False tr =
     (None, [], ClusterAllocs_Remove_all (map NextInFlight ms) st,
      tr @ map Ev_qcow2_alloc_cluster_abort ms)"
  by (induction ms arbitrary: st tr)
     (simp_all add: ClusterAllocs_Remove_all_Nil ClusterAllocs_Remove_all_Cons
        qcow2_alloc_cluster_abort_def)


text \<open>
  With \<open>linkL2 = true\<close> the outcome follows the answers of \<open>qcow2_alloc_cluster_link_l2\<close>,
  each given on the events so far: if every link succeeds the whole chain is linked;
  if the link of element \<open>k\<close> is the first to fail, the elements before it are linked and
  the chain from \<open>k\<close> on is left, with the error of that link.
\<close>

lemma qcow2_handle_l2meta_link_all:
  assumes "\<forall>i<length ms. qcow2_alloc_cluster_link_l2_res e
               (tr @ map Ev_qcow2_alloc_cluster_link_l2 (take i ms)) (ms ! i) = None"
  shows "qcow2_handle_l2meta e st ms True tr =
           (None, [], ClusterAllocs_Remove_all (map NextInFlight ms) st,
            tr @ map Ev_qcow2_alloc_cluster_link_l2 ms)"
  using assms
proof (induction ms arbitrary: st tr)
  case Nil
  then show ?case by (simp add: ClusterAllocs_Remove_all_Nil)
next
  case (Cons m ms)
  from Cons.prems [rule_format, of 0]
  have h: "qcow2_alloc_cluster_link_l2_res e tr m = None" by simp
  have t: "\<forall>i<length ms. qcow2_alloc_cluster_link_l2_res e
               ((tr @ [Ev_qcow2_alloc_cluster_link_l2 m]) @
                  map Ev_qcow2_alloc_cluster_link_l2 (take i ms)) (ms ! i) = None"
  proof (intro allI impI)
    fix i assume "i < length ms"
    with Cons.prems [rule_format, of "Suc i"]
    show "qcow2_alloc_cluster_link_l2_res e
               ((tr @ [Ev_qcow2_alloc_cluster_link_l2 m]) @
                  map Ev_qcow2_alloc_cluster_link_l2 (take i ms)) (ms ! i) = None"
      by simp
  qed
  show ?case
    using h Cons.IH [OF t]
    by (simp add: qcow2_alloc_cluster_link_l2_def ClusterAllocs_Remove_all_Cons)
qed

lemma qcow2_handle_l2meta_link_fails:
  assumes "k < length ms"
      and "\<forall>i<k. qcow2_alloc_cluster_link_l2_res e
               (tr @ map Ev_qcow2_alloc_cluster_link_l2 (take i ms)) (ms ! i) = None"
      and "qcow2_alloc_cluster_link_l2_res e
               (tr @ map Ev_qcow2_alloc_cluster_link_l2 (take k ms)) (ms ! k) = Some lerr"
  shows "qcow2_handle_l2meta e st ms True tr =
           (Some lerr, drop k ms, ClusterAllocs_Remove_all (map NextInFlight (take k ms)) st,
            tr @ map Ev_qcow2_alloc_cluster_link_l2 (take (Suc k) ms))"
  using assms
proof (induction ms arbitrary: k st tr)
  case Nil
  then show ?case by simp
next
  case (Cons m ms)
  show ?case
  proof (cases k)
    case 0
    with Cons.prems(3) have "qcow2_alloc_cluster_link_l2_res e tr m = Some lerr" by simp
    then show ?thesis
      using 0 by (simp add: qcow2_alloc_cluster_link_l2_def ClusterAllocs_Remove_all_Nil)
  next
    case (Suc j)
    from Cons.prems(2) [rule_format, of 0] Suc
    have h: "qcow2_alloc_cluster_link_l2_res e tr m = None" by simp
    have j: "j < length ms" using Cons.prems(1) Suc by simp
    have t: "\<forall>i<j. qcow2_alloc_cluster_link_l2_res e
               ((tr @ [Ev_qcow2_alloc_cluster_link_l2 m]) @
                  map Ev_qcow2_alloc_cluster_link_l2 (take i ms)) (ms ! i) = None"
    proof (intro allI impI)
      fix i assume "i < j"
      with Cons.prems(2) [rule_format, of "Suc i"] Suc
      show "qcow2_alloc_cluster_link_l2_res e
               ((tr @ [Ev_qcow2_alloc_cluster_link_l2 m]) @
                  map Ev_qcow2_alloc_cluster_link_l2 (take i ms)) (ms ! i) = None"
        by simp
    qed
    have f: "qcow2_alloc_cluster_link_l2_res e
               ((tr @ [Ev_qcow2_alloc_cluster_link_l2 m]) @
                  map Ev_qcow2_alloc_cluster_link_l2 (take j ms)) (ms ! j) = Some lerr"
      using Cons.prems(3) Suc by simp
    show ?thesis
      using h Suc Cons.IH [OF j t f]
      by (simp add: qcow2_alloc_cluster_link_l2_def ClusterAllocs_Remove_all_Cons)
  qed
qed


text \<open>
  \<open>handle_alloc_space\<close> and \<open>merge_cow\<close> change flags of the \<open>L2Meta\<close> only: the chain keeps
  its in-flight handles.
\<close>

lemma handle_alloc_space_loop_handles:
  "handle_alloc_space_loop e df ms tr = (err, ms', tr') \<Longrightarrow>
     map NextInFlight ms' = map NextInFlight ms"
  by (induction ms arbitrary: tr err ms' tr')
     (auto simp: Let_def split: if_splits prod.splits option.splits)

lemma handle_alloc_space_handles:
  "handle_alloc_space e st ms tr = Returns (err, ms', tr') \<Longrightarrow>
     map NextInFlight ms' = map NextInFlight ms"
  by (auto simp: handle_alloc_space_def handle_alloc_space_loop_handles
      split: option.splits if_splits)

lemma merge_cow_handles:
  "merge_cow e offset bytes qiov qiovOffset ms = (b, ms') \<Longrightarrow>
     map NextInFlight ms' = map NextInFlight ms"
  by (induction ms arbitrary: b ms') (auto split: if_splits prod.splits)

text \<open>
  The write loop returns whenever \<open>qcow2_alloc_host_offset\<close> answers with subranges of at
  least one byte and at most the bytes asked for.
\<close>

lemma qcow2_pwritev_part_returns:
  assumes sane: "\<And>tr allocs off n c h ms allocs'.
                   qcow2_alloc_host_offset_res e tr allocs off n = (None, c, h, ms, allocs') \<Longrightarrow>
                   0 < c \<and> c \<le> n"
  shows "\<exists>r. qcow2_pwritev_part e st offset bytes qiov qiovOffset tr = Some r"
proof (induction "unat bytes" arbitrary: st offset bytes qiovOffset tr rule: less_induct)
  case less
  show ?case
  proof (cases "bytes = 0")
    case True
    then show ?thesis by (subst qcow2_pwritev_part.simps) (simp split: prod.splits)
  next
    case False
    obtain err c h ms allocs where
        a: "qcow2_alloc_host_offset_res e tr (ClusterAllocs (opaque st)) offset bytes =
              (err, c, h, ms, allocs)"
      by (metis surj_pair)
    show ?thesis
    proof (cases err)
      case (Some x)
      then show ?thesis
        using False a
        by (subst qcow2_pwritev_part.simps)
           (simp add: qcow2_alloc_host_offset_def split: prod.splits)
    next
      case None
      from sane [of tr "ClusterAllocs (opaque st)" offset bytes c h ms allocs] a None
      have c: "0 < c" "c \<le> bytes" by simp_all
      have d: "unat (bytes - c) < unat bytes"
        using c by (simp add: unat_sub word_less_nat_alt word_le_nat_alt)
      note IH = less.hyps [OF d]
      show ?thesis
        using False a None IH
        by (subst qcow2_pwritev_part.simps)
           (auto simp: qcow2_alloc_host_offset_def split: prod.splits outcome.splits option.splits)
    qed
  qed
qed

lemma st0_in_flight_removed:
  "ClusterAllocs_Remove 12 (ClusterAllocs_Remove 11 st0_in_flight) = st0"
  by (simp add: ClusterAllocs_Remove_def st0_in_flight_def st0_def initiate_qcow2_state_def Let_def)

lemma meta_handles: "NextInFlight meta1 = 11" "NextInFlight meta2 = 12"
  by (simp_all add: meta1_def meta2_def)

lemma handle_alloc_space_sample:
  "handle_alloc_space e st0_in_flight ms tr = Returns (None, ms, tr)"
  by (simp add: handle_alloc_space_def st0_in_flight_def st0_def child0_def)

lemma merge_cow_sample:
  "merge_cow e 0 131072 7 0 [meta1, meta2] = (False, [meta1, meta2])"
  by (simp add: meta1_def meta2_def)

lemma DataFile_st0_in_flight: "DataFile (opaque st0_in_flight) = Some child0"
  by (simp add: st0_in_flight_def st0_def)



text \<open>
  Claim C3, amended. With \<open>aerr\<close> the result of the copy-on-write zeroing and \<open>werr\<close>
  that of the data-file write (which is skipped when \<open>merge_cow\<close> took the request):
  if either fails, every \<open>L2Meta\<close> of the chain is aborted, none is linked, all are
  taken off the in-flight list and the error is returned. If both succeed, the chain
  is linked in order, each \<open>qcow2_alloc_cluster_link_l2\<close> answering on the events so far.
  If every link succeeds, every \<open>L2Meta\<close> is linked, none is aborted and nil is
  returned. If the link of element \<open>k\<close> is the first to fail, the elements before \<open>k\<close> are
  linked, element \<open>k\<close> and all after it are aborted, and the error of that link is
  returned. So the task returns nil exactly when every link succeeded. In every case
  each handle of the chain leaves the in-flight list.
\<close>

theorem qcow2_pwritev_task_l2meta:
  assumes a: "handle_alloc_space e st l2meta tr = Returns (aerr, l2meta1, tr1)"
      and m: "merge_cow e offset bytes qiov qiovOffset l2meta1 = (merged, l2meta2)"
      and w: "(if merged then (None, tr1)
               else bdrv_pwritev_part e (DataFile (opaque st)) hostOffset bytes qiov qiovOffset tr1) =
              (werr, tr2)"
  shows "(\<forall>err. aerr = Some err \<longrightarrow>
            qcow2_pwritev_task e st hostOffset offset bytes qiov qiovOffset l2meta tr =
              (Returns (Some err), ClusterAllocs_Remove_all (map NextInFlight l2meta) st,
               tr1 @ map Ev_qcow2_alloc_cluster_abort l2meta1)) \<and>
         (\<forall>err. aerr = None \<and> werr = Some err \<longrightarrow>
            qcow2_pwritev_task e st hostOffset offset bytes qiov qiovOffset l2meta tr =
              (Returns (Some err), ClusterAllocs_Remove_all (map NextInFlight l2meta) st,
               tr2 @ map Ev_qcow2_alloc_cluster_abort l2meta2)) \<and>
         (aerr = None \<and> werr = None \<and>
          (\<forall>i<length l2meta2.
             qcow2_alloc_cluster_link_l2_res e
               (tr2 @ map Ev_qcow2_alloc_cluster_link_l2 (take i l2meta2)) (l2meta2 ! i) = None) \<longrightarrow>
            qcow2_pwritev_task e st hostOffset offset bytes qiov qiovOffset l2meta tr =
              (Returns None, ClusterAllocs_Remove_all (map NextInFlight l2meta) st,
               tr2 @ map Ev_qcow2_alloc_cluster_link_l2 l2meta2)) \<and>
         (\<forall>k lerr. aerr = None \<and> werr = None \<and> k < length l2meta2 \<and>
            (\<forall>i<k.
               qcow2_alloc_cluster_link_l2_res e
                 (tr2 @ map Ev_qcow2_alloc_cluster_link_l2 (take i l2meta2)) (l2meta2 ! i) = None) \<and>
            qcow2_alloc_cluster_link_l2_res e
              (tr2 @ map Ev_qcow2_alloc_cluster_link_l2 (take k l2meta2)) (l2meta2 ! k) = Some lerr \<longrightarrow>
            qcow2_pwritev_task e st hostOffset offset bytes qiov qiovOffset l2meta tr =
              (Returns (Some lerr), ClusterAllocs_Remove_all (map NextInFlight l2meta) st,
               tr2 @ map Ev_qcow2_alloc_cluster_link_l2 (take (Suc k) l2meta2) @
                 map Ev_qcow2_alloc_cluster_abort (drop k l2meta2))) \<and>
         (aerr = None \<and> werr = None \<longrightarrow>
            (fst (qcow2_pwritev_task e st hostOffset offset bytes qiov qiovOffset l2meta tr) =
               Returns None \<longleftrightarrow>
             (\<forall>i<length l2meta2.
                qcow2_alloc_cluster_link_l2_res e
                  (tr2 @ map Ev_qcow2_alloc_cluster_link_l2 (take i l2meta2)) (l2meta2 ! i) = None)))"
proof -
  let ?task = "qcow2_pwritev_task e st hostOffset offset bytes qiov qiovOffset l2meta tr"
  let ?all = "ClusterAllocs_Remove_all (map NextInFlight l2meta) st"
  let ?res = "\<lambda>i. qcow2_alloc_cluster_link_l2_res e
                 (tr2 @ map Ev_qcow2_alloc_cluster_link_l2 (take i l2meta2)) (l2meta2 ! i)"
  have h1: "map NextInFlight l2meta1 = map NextInFlight l2meta"
    using a by (rule handle_alloc_space_handles)
  have h2: "map NextInFlight l2meta2 = map NextInFlight l2meta"
    using merge_cow_handles [OF m] h1 by simp
  have A: "?task = (Returns (Some err), ?all, tr1 @ map Ev_qcow2_alloc_cluster_abort l2meta1)"
    if "aerr = Some err" for err
    using a that by (simp add: qcow2_pwritev_task_def qcow2_handle_l2meta_abort h1)
  have B: "?task = (Returns (Some err), ?all, tr2 @ map Ev_qcow2_alloc_cluster_abort l2meta2)"
    if "aerr = None" "werr = Some err" for err
  proof -
    have nm: "\<not> merged" using w that by (auto split: if_splits)
    show ?thesis
      using a m w that nm by (simp add: qcow2_pwritev_task_def qcow2_handle_l2meta_abort h2)
  qed
  have T: "?task = (Returns lerr, ClusterAllocs_Remove_all (map NextInFlight rest) st1,
                    tr3 @ map Ev_qcow2_alloc_cluster_abort rest)"
    if "aerr = None" "werr = None"
       "qcow2_handle_l2meta e st l2meta2 True tr2 = (lerr, rest, st1, tr3)"
    for lerr rest st1 tr3
    using a m w that
    by (cases merged) (simp_all add: qcow2_pwritev_task_def qcow2_handle_l2meta_abort)
  have C: "?task = (Returns None, ?all, tr2 @ map Ev_qcow2_alloc_cluster_link_l2 l2meta2)"
    if "aerr = None" "werr = None" "\<forall>i<length l2meta2. ?res i = None"
    using T [OF that(1,2) qcow2_handle_l2meta_link_all [OF that(3)]]
    by (simp add: ClusterAllocs_Remove_all_Nil h2)
  have D: "?task = (Returns (Some lerr), ?all,
                    tr2 @ map Ev_qcow2_alloc_cluster_link_l2 (take (Suc k) l2meta2) @
                      map Ev_qcow2_alloc_cluster_abort (drop k l2meta2))"
    if "aerr = None" "werr = None" "k < length l2meta2" "\<forall>i<k. ?res i = None"
       "?res k = Some lerr"
    for k lerr
  proof -
    have "ClusterAllocs_Remove_all (map NextInFlight (drop k l2meta2))
            (ClusterAllocs_Remove_all (map NextInFlight (take k l2meta2)) st) =
          ClusterAllocs_Remove_all (map NextInFlight (take k l2meta2 @ drop k l2meta2)) st"
      unfolding map_append by (simp only: ClusterAllocs_Remove_all_append)
    then have s: "ClusterAllocs_Remove_all (map NextInFlight (drop k l2meta2))
            (ClusterAllocs_Remove_all (map NextInFlight (take k l2meta2)) st) = ?all"
      by (simp add: h2)
    show ?thesis
      using T [OF that(1,2) qcow2_handle_l2meta_link_fails [OF that(3,4,5)]] s by simp
  qed
  have E: "fst ?task = Returns None \<longleftrightarrow> (\<forall>i<length l2meta2. ?res i = None)"
    if n: "aerr = None" "werr = None"
  proof
    assume r: "fst ?task = Returns None"
    show "\<forall>i<length l2meta2. ?res i = None"
    proof (rule ccontr)
      assume "\<not> (\<forall>i<length l2meta2. ?res i = None)"
      then have "\<exists>k. k < length l2meta2 \<and> ?res k \<noteq> None" by blast
      then obtain k where k: "k < length l2meta2 \<and> ?res k \<noteq> None"
          and l: "\<forall>i<k. \<not> (i < length l2meta2 \<and> ?res i \<noteq> None)"
        using exists_least_iff [of "\<lambda>k. k < length l2meta2 \<and> ?res k \<noteq> None"] by blast
      from k obtain lerr where f: "?res k = Some lerr" by blast
      have p: "\<forall>i<k. ?res i = None" using l k by auto
      from D [OF n _ p f] k have "fst ?task = Returns (Some lerr)" by simp
      with r show False by simp
    qed
  next
    assume "\<forall>i<length l2meta2. ?res i = None"
    from C [OF n this] show "fst ?task = Returns None" by simp
  qed
  show ?thesis using A B C D E by blast
qed

text \<open>
  On the sample image: a write of two clusters whose links succeed commits both
  \<open>L2Meta\<close>; when the second link fails the first is committed and the second aborted;
  when the data-file write fails, or the probe of a copy-on-write region, both are
  aborted.
\<close>

theorem qcow2_pwritev_task_l2meta_witness:
  "(handle_alloc_space env0 st0_in_flight [meta1, meta2] [] = Returns (None, [meta1, meta2], []) \<and>
    merge_cow env0 0 131072 7 0 [meta1, meta2] = (False, [meta1, meta2]) \<and>
    bdrv_pwritev_part env0 (DataFile (opaque st0_in_flight)) 0x50000 131072 7 0 [] =
      (None, [Ev_bdrv_pwritev_part (Some child0) 0x50000 131072 7 0]) \<and>
    qcow2_alloc_cluster_link_l2_res env0
      [Ev_bdrv_pwritev_part (Some child0) 0x50000 131072 7 0] meta1 = None \<and>
    qcow2_alloc_cluster_link_l2_res env0
      [Ev_bdrv_pwritev_part (Some child0) 0x50000 131072 7 0,
       Ev_qcow2_alloc_cluster_link_l2 meta1] meta2 = None \<and>
    qcow2_pwritev_task env0 st0_in_flight 0x50000 0 131072 7 0 [meta1, meta2] [] =
      (Returns None, st0,
       [Ev_bdrv_pwritev_part (Some child0) 0x50000 131072 7 0,
        Ev_qcow2_alloc_cluster_link_l2 meta1,
        Ev_qcow2_alloc_cluster_link_l2 meta2])) \<and>
   (handle_alloc_space env_link_fails st0_in_flight [meta1, meta2] [] =
      Returns (None, [meta1, meta2], []) \<and>
    merge_cow env_link_fails 0 131072 7 0 [meta1, meta2] = (False, [meta1, meta2]) \<and>
    bdrv_pwritev_part env_link_fails (DataFile (opaque st0_in_flight)) 0x50000 131072 7 0 [] =
      (None, [Ev_bdrv_pwritev_part (Some child0) 0x50000 131072 7 0]) \<and>
    qcow2_alloc_cluster_link_l2_res env_link_fails
      [Ev_bdrv_pwritev_part (Some child0) 0x50000 131072 7 0] meta1 = None \<and>
    qcow2_alloc_cluster_link_l2_res env_link_fails
      [Ev_bdrv_pwritev_part (Some child0) 0x50000 131072 7 0,
       Ev_qcow2_alloc_cluster_link_l2 meta1] meta2 = Some (Err_External 5) \<and>
    qcow2_pwritev_task env_link_fails st0_in_flight 0x50000 0 131072 7 0 [meta1, meta2] [] =
      (Returns (Some (Err_External 5)), st0,
       [Ev_bdrv_pwritev_part (Some child0) 0x50000 131072 7 0,
        Ev_qcow2_alloc_cluster_link_l2 meta1,
        Ev_qcow2_alloc_cluster_link_l2 meta2,
        Ev_qcow2_alloc_cluster_abort meta2])) \<and>
   (handle_alloc_space env_write_fails st0_in_flight [meta1, meta2] [] =
      Returns (None, [meta1, meta2], []) \<and>
    merge_cow env_write_fails 0 131072 7 0 [meta1, meta2] = (False, [meta1, meta2]) \<and>
    bdrv_pwritev_part env_write_fails (DataFile (opaque st0_in_flight)) 0x50000 131072 7 0 [] =
      (Some (Err_External 7), [Ev_bdrv_pwritev_part (Some child0) 0x50000 131072 7 0]) \<and>
    qcow2_pwritev_task env_write_fails st0_in_flight 0x50000 0 131072 7 0 [meta1, meta2] [] =
      (Returns (Some (Err_External 7)), st0,
       [Ev_bdrv_pwritev_part (Some child0) 0x50000 131072 7 0,
        Ev_qcow2_alloc_cluster_abort meta1,
        Ev_qcow2_alloc_cluster_abort meta2])) \<and>
   (handle_alloc_space env_probe_fails st0_no_fallback [meta_cow, meta2] [] =
      Returns (Some (Err_External 9), [meta_cow, meta2], [Ev_bdrv_is_zero_fast 0 512]) \<and>
    qcow2_pwritev_task env_probe_fails st0_no_fallback 0x50000 0 131072 7 0 [meta_cow, meta2] [] =
      (Returns (Some (Err_External 9)),
       ClusterAllocs_Remove_all [11, 12] st0_no_fallback,
       [Ev_bdrv_is_zero_fast 0 512,
        Ev_qcow2_alloc_cluster_abort meta_cow,
        Ev_qcow2_alloc_cluster_abort meta2]))"
proof -
  let ?W = "Ev_bdrv_pwritev_part (Some child0) 0x50000 131072 7 0"
  have r: "ClusterAllocs_Remove_all [NextInFlight meta1, NextInFlight meta2] st0_in_flight = st0"
    by (simp add: ClusterAllocs_Remove_all_Cons ClusterAllocs_Remove_all_Nil meta_handles
        st0_in_flight_removed)
  have m: "merge_cow e 0 131072 7 0 [meta1, meta2] = (False, [meta1, meta2])" for e
    by (rule merge_cow_sample)
  have a: "handle_alloc_space e st0_in_flight [meta1, meta2] [] =
             Returns (None, [meta1, meta2], [])" for e
    by (rule handle_alloc_space_sample)

  have w0: "bdrv_pwritev_part env0 (DataFile (opaque st0_in_flight)) 0x50000 131072 7 0 [] =
              (None, [?W])"
    by (simp add: bdrv_pwritev_part_def env0_def DataFile_st0_in_flight)
  then have w0': "(if False then (None, [])
        else bdrv_pwritev_part env0 (DataFile (opaque st0_in_flight)) 0x50000 131072 7 0 []) =
     (None, [?W])"
    by simp
  have l0: "qcow2_alloc_cluster_link_l2_res env0 [?W] meta1 = None"
      "qcow2_alloc_cluster_link_l2_res env0 [?W, Ev_qcow2_alloc_cluster_link_l2 meta1] meta2 = None"
    by (simp_all add: env0_def)
  from qcow2_pwritev_task_l2meta [OF a m w0', THEN conjunct2, THEN conjunct2, THEN conjunct1] l0
  have t0: "qcow2_pwritev_task env0 st0_in_flight 0x50000 0 131072 7 0 [meta1, meta2] [] =
      (Returns None, st0,
       [?W, Ev_qcow2_alloc_cluster_link_l2 meta1, Ev_qcow2_alloc_cluster_link_l2 meta2])"
    by (simp add: r All_less_Suc)

  have w1: "bdrv_pwritev_part env_link_fails (DataFile (opaque st0_in_flight)) 0x50000 131072 7 0 [] =
              (None, [?W])"
    by (simp add: bdrv_pwritev_part_def env_link_fails_def env0_def DataFile_st0_in_flight)
  then have w1': "(if False then (None, [])
        else bdrv_pwritev_part env_link_fails (DataFile (opaque st0_in_flight)) 0x50000 131072 7 0 []) =
     (None, [?W])"
    by simp
  have l1: "qcow2_alloc_cluster_link_l2_res env_link_fails [?W] meta1 = None"
      "qcow2_alloc_cluster_link_l2_res env_link_fails
         [?W, Ev_qcow2_alloc_cluster_link_l2 meta1] meta2 = Some (Err_External 5)"
    by (simp_all add: env_link_fails_def meta_handles)
  from qcow2_pwritev_task_l2meta [OF a m w1', THEN conjunct2, THEN conjunct2, THEN conjunct2,
      THEN conjunct1, rule_format, of 1 "Err_External 5"] l1
  have t1: "qcow2_pwritev_task env_link_fails st0_in_flight 0x50000 0 131072 7 0 [meta1, meta2] [] =
      (Returns (Some (Err_External 5)), st0,
       [?W, Ev_qcow2_alloc_cluster_link_l2 meta1, Ev_qcow2_alloc_cluster_link_l2 meta2,
        Ev_qcow2_alloc_cluster_abort meta2])"
    by (simp add: r)

  have w2: "bdrv_pwritev_part env_write_fails (DataFile (opaque st0_in_flight)) 0x50000 131072 7 0 [] =
              (Some (Err_External 7), [?W])"
    by (simp add: bdrv_pwritev_part_def env_write_fails_def env0_def DataFile_st0_in_flight)
  then have w2': "(if False then (None, [])
        else bdrv_pwritev_part env_write_fails (DataFile (opaque st0_in_flight)) 0x50000 131072 7 0 []) =
     (Some (Err_External 7), [?W])"
    by simp
  from qcow2_pwritev_task_l2meta [OF a m w2', THEN conjunct2, THEN conjunct1, rule_format,
      of "Err_External 7"]
  have t2: "qcow2_pwritev_task env_write_fails st0_in_flight 0x50000 0 131072 7 0 [meta1, meta2] [] =
      (Returns (Some (Err_External 7)), st0,
       [?W, Ev_qcow2_alloc_cluster_abort meta1, Ev_qcow2_alloc_cluster_abort meta2])"
    by (simp add: r)

  have a3: "handle_alloc_space env_probe_fails st0_no_fallback [meta_cow, meta2] [] =
      Returns (Some (Err_External 9), [meta_cow, meta2], [Ev_bdrv_is_zero_fast 0 512])"
    by (simp add: handle_alloc_space_def st0_no_fallback_def child_no_fallback_def
        BDRV_REQ_NO_FALLBACK_def meta_cow_def meta1_def is_zero_cow_def bdrv_is_zero_fast_def
        env_probe_fails_def)
  obtain mg ms3 where m3: "merge_cow env_probe_fails 0 131072 7 0 [meta_cow, meta2] = (mg, ms3)"
    by (metis surj_pair)
  obtain we tr3 where w3: "(if mg then (None, [Ev_bdrv_is_zero_fast 0 512])
        else bdrv_pwritev_part env_probe_fails (DataFile (opaque st0_no_fallback)) 0x50000 131072 7 0
               [Ev_bdrv_is_zero_fast 0 512]) = (we, tr3)"
    by (metis surj_pair)
  have h3: "NextInFlight meta_cow = 11" "NextInFlight meta2 = 12"
    by (simp_all add: meta_cow_def meta_handles)
  from qcow2_pwritev_task_l2meta [OF a3 m3 w3, THEN conjunct1, rule_format, of "Err_External 9"]
  have t3: "qcow2_pwritev_task env_probe_fails st0_no_fallback 0x50000 0 131072 7 0
              [meta_cow, meta2] [] =
      (Returns (Some (Err_External 9)),
       ClusterAllocs_Remove_all [11, 12] st0_no_fallback,
       [Ev_bdrv_is_zero_fast 0 512,
        Ev_qcow2_alloc_cluster_abort meta_cow,
        Ev_qcow2_alloc_cluster_abort meta2])"
    by (simp add: h3)

  show ?thesis
    using a [of env0] m [of env0] w0 l0 t0
          a [of env_link_fails] m [of env_link_fails] w1 l1 t1
          a [of env_write_fails] m [of env_write_fails] w2 t2 a3 t3
    by (intro conjI)
qed

text \<open>
  Claim C3 as stated fails when a link fails: the data-file write of the sample
  request succeeds, the link of the second \<open>L2Meta\<close> fails, and that \<open>L2Meta\<close> is
  aborted and not committed.
\<close>

theorem qcow2_pwritev_task_link_failure_counterexample:
  "qcow2_pwritev_task env_link_fails st0_in_flight 0x50000 0 131072 7 0 [meta1, meta2] [] =
     (Returns (Some (Err_External 5)), st0,
      [Ev_bdrv_pwritev_part (Some child0) 0x50000 131072 7 0,
       Ev_qcow2_alloc_cluster_link_l2 meta1,
       Ev_qcow2_alloc_cluster_link_l2 meta2,
       Ev_qcow2_alloc_cluster_abort meta2])"
  by (simp add: qcow2_pwritev_task_def handle_alloc_space_sample merge_cow_sample
      DataFile_st0_in_flight bdrv_pwritev_part_def qcow2_alloc_cluster_link_l2_def
      qcow2_alloc_cluster_abort_def env_link_fails_def env0_def meta_handles
      st0_in_flight_removed del: merge_cow.simps)

subsection \<open>Writing zeroes\<close>

text \<open>\<open>is_zero\<close> only asks for block status.\<close>

lemma is_zero_loop_queries:
  assumes "is_zero_loop e off n tr = Some r"
  shows "\<exists>evs. snd r = tr @ evs \<and> list_all is_block_status_query evs"
  using assms
proof (induction rule: is_zero_loop.raw_induct [rotated 1, consumes 1])
  case (1 loop e off n tr r)
  obtain res err nr where
      b: "bdrv_block_status_above e off n tr =
            ((res, err, nr), tr @ [Ev_bdrv_block_status_above off n])"
    by (cases "bdrv_block_status_above_res e tr off n")
       (auto simp: bdrv_block_status_above_def)
  show ?case
  proof (cases "err = None \<and> res AND BDRV_BLOCK_ZERO > 0 \<and> nr > 0 \<and> n - nr > 0")
    case True
    with 1(2) b have "loop e (off + nr) (n - nr) (tr @ [Ev_bdrv_block_status_above off n]) = Some r"
      by simp
    from 1(1) [OF this] obtain evs where
        "snd r = (tr @ [Ev_bdrv_block_status_above off n]) @ evs"
        "list_all is_block_status_query evs"
      by blast
    then show ?thesis
      by (intro exI[of _ "Ev_bdrv_block_status_above off n # evs"]) simp
  next
    case False
    with 1(2) b have "snd r = tr @ [Ev_bdrv_block_status_above off n]"
      by auto
    then show ?thesis
      by (intro exI[of _ "[Ev_bdrv_block_status_above off n]"]) simp
  qed
qed

lemma is_zero_queries:
  assumes "is_zero e st off n tr = Some (b, tr')"
  shows "\<exists>evs. tr' = tr @ evs \<and> list_all is_block_status_query evs"
proof (cases "(if off + n > TotalSectors st * BDRV_SECTOR_SIZE
               then TotalSectors st * BDRV_SECTOR_SIZE - off else n) = 0")
  case True
  with assms have "tr' = tr" by (simp add: is_zero_def Let_def)
  then show ?thesis by simp
next
  case False
  with assms obtain n1 where "is_zero_loop e off n1 tr = Some (b, tr')"
    by (simp add: is_zero_def Let_def)
  from is_zero_loop_queries [OF this] show ?thesis by simp
qed

text \<open>
  \<open>is_zero\<close>, and with it \<open>qcow2_pwrite_zeroes\<close>, returns whenever no status run is
  longer than the range asked for.
\<close>

lemma is_zero_loop_returns:
  assumes sane: "\<And>tr off n. snd (snd (bdrv_block_status_above_res e tr off n)) \<le> n"
  shows "\<exists>r. is_zero_loop e off n tr = Some r"
proof (induction "unat n" arbitrary: off n tr rule: less_induct)
  case less
  obtain res err nr where b: "bdrv_block_status_above_res e tr off n = (res, err, nr)"
    by (cases "bdrv_block_status_above_res e tr off n") auto
  have le: "nr \<le> n" using sane [of tr off n] b by simp
  show ?case
  proof (cases "err = None \<and> res AND BDRV_BLOCK_ZERO > 0 \<and> nr > 0 \<and> n - nr > 0")
    case True
    then have "unat (n - nr) < unat n"
      using le by (simp add: unat_sub word_less_nat_alt)
    from less [OF this] obtain r where
      "is_zero_loop e (off + nr) (n - nr) (tr @ [Ev_bdrv_block_status_above off n]) = Some r"
      by blast
    then show ?thesis
      using True b by (subst is_zero_loop.simps) (simp add: bdrv_block_status_above_def)
  next
    case False
    then show ?thesis
      using b by (subst is_zero_loop.simps) (auto simp: bdrv_block_status_above_def)
  qed
qed

lemma is_zero_returns:
  assumes "\<And>tr off n. snd (snd (bdrv_block_status_above_res e tr off n)) \<le> n"
  shows "\<exists>r. is_zero e st off n tr = Some r"
  using is_zero_loop_returns [OF assms] by (auto simp: is_zero_def Let_def)

lemma qcow2_pwrite_zeroes_returns:
  assumes "\<And>tr off n. snd (snd (bdrv_block_status_above_res e tr off n)) \<le> n"
  shows "\<exists>r. qcow2_pwrite_zeroes e st offset bytes flags tr = Some r"
proof -
  let ?head = "offset_into_subcluster (opaque st) offset"
  obtain z1 tr1 where z1: "is_zero e st (offset - ?head) ?head tr = Some (z1, tr1)"
    using is_zero_returns [OF assms, of st "offset - ?head" ?head tr] by (metis surj_pair)
  obtain z2 tr2 where z2: "is_zero e st (offset + bytes)
      (if offset + bytes = TotalSectors st * BDRV_SECTOR_SIZE then 0
       else round_up (offset + bytes) (SubclusterSize (opaque st)) - (offset + bytes)) tr1 =
      Some (z2, tr2)"
    using is_zero_returns [OF assms, of st "offset + bytes" _ tr1] by (metis surj_pair)
  show ?thesis
    unfolding qcow2_pwrite_zeroes_def Let_def
    using z1 z2 by (auto split: prod.splits sum.splits)
qed

lemma st0_sc_fields:
  "SubclusterSize (opaque st0_sc) = 2048" "TotalSectors st0_sc = 2048"
  by (simp_all add: st0_sc_def st0_def initiate_qcow2_state_def Let_def header0_def
      QCOW_EXTL2_SUBCLUSTERS_PER_CLUSTER_def)

lemma st0_sc_head_tail:
  "offset_into_subcluster (opaque st0_sc) 100 = 100"
  "round_up 4100 2048 = 6144"
  by (simp_all add: offset_into_subcluster_def round_up_def st0_sc_fields)

lemma is_zero_env0_head:
  "is_zero env0 st0_sc 0 100 tr = Some (True, tr @ [Ev_bdrv_block_status_above 0 100])"
  by (simp add: is_zero_def st0_sc_fields BDRV_SECTOR_SIZE_def is_zero_loop.simps
      bdrv_block_status_above_def env0_def BDRV_BLOCK_ZERO_def)

lemma is_zero_env0_tail:
  "is_zero env0 st0_sc 4100 2044 tr = Some (True, tr @ [Ev_bdrv_block_status_above 4100 2044])"
  by (simp add: is_zero_def st0_sc_fields BDRV_SECTOR_SIZE_def is_zero_loop.simps
      bdrv_block_status_above_def env0_def BDRV_BLOCK_ZERO_def)

lemma is_zero_data_head:
  "is_zero (env0\<lparr>bdrv_block_status_above_res := \<lambda>tr off n. (BDRV_BLOCK_DATA, None, n)\<rparr>)
     st0_sc 0 100 tr = Some (False, tr @ [Ev_bdrv_block_status_above 0 100])"
  by (simp add: is_zero_def st0_sc_fields BDRV_SECTOR_SIZE_def is_zero_loop.simps
      bdrv_block_status_above_def BDRV_BLOCK_ZERO_def BDRV_BLOCK_DATA_def)

lemma env0_get_host_offset:
  "qcow2_get_host_offset env0 off n tr =
     (Inr (n, 0, QCOW2_SUBCLUSTER_UNALLOCATED_PLAIN), tr @ [Ev_qcow2_get_host_offset off n])"
  by (simp add: qcow2_get_host_offset_def env0_def)

lemma env0_subcluster_zeroize:
  "qcow2_subcluster_zeroize env0 off n flags tr =
     (None, tr @ [Ev_qcow2_subcluster_zeroize off n flags])"
  by (simp add: qcow2_subcluster_zeroize_def env0_def)

text \<open>
  Claim C2, amended. For a zero write that is not subcluster-aligned at both ends
  (\<open>head\<close> and \<open>tail\<close> as the function computes them, the tail being 0 at the end of the
  image): if the bytes before the range, or else those after it, do not read as zero,
  the call returns \<open>ERR_ENOTSUP\<close> and has only asked for block status; if both read as
  zero, the subcluster that starts at \<open>offset - head\<close> is looked up again: a failed
  lookup returns its error, and when that subcluster is unallocated or zero, exactly
  this one subcluster, \<open>SubclusterSize\<close> bytes from \<open>offset - head\<close>, is handed to
  \<open>qcow2_subcluster_zeroize\<close>, whose result is returned.
\<close>

theorem qcow2_pwrite_zeroes_unaligned:
  fixes e st offset bytes flags tr
  defines "head \<equiv> offset_into_subcluster (opaque st) offset"
      and "tail \<equiv> (if offset + bytes = TotalSectors st * BDRV_SECTOR_SIZE then 0
                    else round_up (offset + bytes) (SubclusterSize (opaque st)) - (offset + bytes))"
  assumes una: "head > 0 \<or> tail > 0"
  shows "(\<forall>tr1. is_zero e st (offset - head) head tr = Some (False, tr1) \<longrightarrow>
            qcow2_pwrite_zeroes e st offset bytes flags tr = Some (Some ERR_ENOTSUP, tr1) \<and>
            (\<exists>evs. tr1 = tr @ evs \<and> list_all is_block_status_query evs)) \<and>
         (\<forall>tr1 tr2. is_zero e st (offset - head) head tr = Some (True, tr1) \<and>
            is_zero e st (offset + bytes) tail tr1 = Some (False, tr2) \<longrightarrow>
            qcow2_pwrite_zeroes e st offset bytes flags tr = Some (Some ERR_ENOTSUP, tr2) \<and>
            (\<exists>evs. tr2 = tr @ evs \<and> list_all is_block_status_query evs)) \<and>
         (\<forall>tr1 tr2 tr3 err. is_zero e st (offset - head) head tr = Some (True, tr1) \<and>
            is_zero e st (offset + bytes) tail tr1 = Some (True, tr2) \<and>
            qcow2_get_host_offset e (offset - head) (ucast (SubclusterSize (opaque st))) tr2 =
              (Inl err, tr3) \<longrightarrow>
            qcow2_pwrite_zeroes e st offset bytes flags tr = Some (Some err, tr3)) \<and>
         (\<forall>tr1 tr2 tr3 nr off t. is_zero e st (offset - head) head tr = Some (True, tr1) \<and>
            is_zero e st (offset + bytes) tail tr1 = Some (True, tr2) \<and>
            qcow2_get_host_offset e (offset - head) (ucast (SubclusterSize (opaque st))) tr2 =
              (Inr (nr, off, t), tr3) \<and>
            (t = QCOW2_SUBCLUSTER_UNALLOCATED_PLAIN \<or> t = QCOW2_SUBCLUSTER_UNALLOCATED_ALLOC \<or>
             t = QCOW2_SUBCLUSTER_ZERO_PLAIN \<or> t = QCOW2_SUBCLUSTER_ZERO_ALLOC) \<longrightarrow>
            qcow2_pwrite_zeroes e st offset bytes flags tr =
              Some (qcow2_subcluster_zeroize e (offset - head) (SubclusterSize (opaque st))
                      flags tr3))"
proof -
  have A: "qcow2_pwrite_zeroes e st offset bytes flags tr = Some (Some ERR_ENOTSUP, tr1) \<and>
            (\<exists>evs. tr1 = tr @ evs \<and> list_all is_block_status_query evs)"
    if z: "is_zero e st (offset - head) head tr = Some (False, tr1)" for tr1
  proof -
    have "qcow2_pwrite_zeroes e st offset bytes flags tr = Some (Some ERR_ENOTSUP, tr1)"
      using una z unfolding qcow2_pwrite_zeroes_def Let_def head_def tail_def by simp
    then show ?thesis using is_zero_queries [OF z] by simp
  qed
  have B: "qcow2_pwrite_zeroes e st offset bytes flags tr = Some (Some ERR_ENOTSUP, tr2) \<and>
            (\<exists>evs. tr2 = tr @ evs \<and> list_all is_block_status_query evs)"
    if z1: "is_zero e st (offset - head) head tr = Some (True, tr1)"
      and z2: "is_zero e st (offset + bytes) tail tr1 = Some (False, tr2)" for tr1 tr2
  proof -
    have r: "qcow2_pwrite_zeroes e st offset bytes flags tr = Some (Some ERR_ENOTSUP, tr2)"
      using una z1 z2 unfolding qcow2_pwrite_zeroes_def Let_def head_def tail_def by simp
    from is_zero_queries [OF z1] obtain evs1 where
        e1: "tr1 = tr @ evs1" "list_all is_block_status_query evs1" by blast
    from is_zero_queries [OF z2] obtain evs2 where
        e2: "tr2 = tr1 @ evs2" "list_all is_block_status_query evs2" by blast
    have "tr2 = tr @ (evs1 @ evs2) \<and> list_all is_block_status_query (evs1 @ evs2)"
      using e1 e2 by simp
    then show ?thesis using r by blast
  qed
  have C: "qcow2_pwrite_zeroes e st offset bytes flags tr = Some (Some err, tr3)"
    if "is_zero e st (offset - head) head tr = Some (True, tr1)"
      and "is_zero e st (offset + bytes) tail tr1 = Some (True, tr2)"
      and "qcow2_get_host_offset e (offset - head) (ucast (SubclusterSize (opaque st))) tr2 =
              (Inl err, tr3)" for tr1 tr2 tr3 err
    using una that unfolding qcow2_pwrite_zeroes_def Let_def head_def tail_def by simp
  have D: "qcow2_pwrite_zeroes e st offset bytes flags tr =
              Some (qcow2_subcluster_zeroize e (offset - head) (SubclusterSize (opaque st))
                      flags tr3)"
    if "is_zero e st (offset - head) head tr = Some (True, tr1)"
      and "is_zero e st (offset + bytes) tail tr1 = Some (True, tr2)"
      and "qcow2_get_host_offset e (offset - head) (ucast (SubclusterSize (opaque st))) tr2 =
              (Inr (nr, off, t), tr3)"
      and "t = QCOW2_SUBCLUSTER_UNALLOCATED_PLAIN \<or> t = QCOW2_SUBCLUSTER_UNALLOCATED_ALLOC \<or>
           t = QCOW2_SUBCLUSTER_ZERO_PLAIN \<or> t = QCOW2_SUBCLUSTER_ZERO_ALLOC"
    for tr1 tr2 tr3 nr off t
    using una that unfolding qcow2_pwrite_zeroes_def Let_def head_def tail_def by auto
  show ?thesis using A B C D by blast
qed

text \<open>
  On the sample image with subclusters the surroundings read as zero and one
  subcluster is zeroized; where the block status reports data, the same call returns
  \<open>ERR_ENOTSUP\<close> after one status query.
\<close>

theorem qcow2_pwrite_zeroes_unaligned_witness:
  "0 < offset_into_subcluster (opaque st0_sc) 100 \<and>
   is_zero env0 st0_sc 0 100 [] = Some (True, [Ev_bdrv_block_status_above 0 100]) \<and>
   is_zero env0 st0_sc 4100 2044 [Ev_bdrv_block_status_above 0 100] =
     Some (True, [Ev_bdrv_block_status_above 0 100, Ev_bdrv_block_status_above 4100 2044]) \<and>
   qcow2_pwrite_zeroes env0 st0_sc 100 4000 0 [] =
     Some (qcow2_subcluster_zeroize env0 0 2048 0
             [Ev_bdrv_block_status_above 0 100, Ev_bdrv_block_status_above 4100 2044,
              Ev_qcow2_get_host_offset 0 2048]) \<and>
   is_zero (env0\<lparr>bdrv_block_status_above_res := \<lambda>tr off n. (BDRV_BLOCK_DATA, None, n)\<rparr>)
     st0_sc 0 100 [] = Some (False, [Ev_bdrv_block_status_above 0 100]) \<and>
   qcow2_pwrite_zeroes
     (env0\<lparr>bdrv_block_status_above_res := \<lambda>tr off n. (BDRV_BLOCK_DATA, None, n)\<rparr>)
     st0_sc 100 4000 0 [] = Some (Some ERR_ENOTSUP, [Ev_bdrv_block_status_above 0 100])"
proof -
  let ?d = "env0\<lparr>bdrv_block_status_above_res := \<lambda>tr off n. (BDRV_BLOCK_DATA, None, n)\<rparr>"
  have h: "offset_into_subcluster (opaque st0_sc) 100 = 100" by (rule st0_sc_head_tail)
  have una: "0 < offset_into_subcluster (opaque st0_sc) 100 \<or>
             0 < (if 100 + 4000 = TotalSectors st0_sc * BDRV_SECTOR_SIZE then 0
                  else round_up (100 + 4000) (SubclusterSize (opaque st0_sc)) - (100 + 4000))"
    unfolding h by simp
  have z1: "is_zero env0 st0_sc 0 100 [] = Some (True, [Ev_bdrv_block_status_above 0 100])"
    using is_zero_env0_head [of "[]"] by simp
  have z2: "is_zero env0 st0_sc 4100 2044 [Ev_bdrv_block_status_above 0 100] =
     Some (True, [Ev_bdrv_block_status_above 0 100, Ev_bdrv_block_status_above 4100 2044])"
    using is_zero_env0_tail [of "[Ev_bdrv_block_status_above 0 100]"] by simp
  have g: "qcow2_get_host_offset env0 0 (ucast (2048 :: u64))
             [Ev_bdrv_block_status_above 0 100, Ev_bdrv_block_status_above 4100 2044] =
           (Inr (2048, 0, QCOW2_SUBCLUSTER_UNALLOCATED_PLAIN),
            [Ev_bdrv_block_status_above 0 100, Ev_bdrv_block_status_above 4100 2044,
             Ev_qcow2_get_host_offset 0 2048])"
    by (simp add: env0_get_host_offset)
  have d1: "is_zero ?d st0_sc 0 100 [] = Some (False, [Ev_bdrv_block_status_above 0 100])"
    using is_zero_data_head [of "[]"] by simp
  note T = qcow2_pwrite_zeroes_unaligned [where st = st0_sc and offset = 100 and bytes = 4000
              and flags = 0 and tr = "[]", OF una]
  have A: "qcow2_pwrite_zeroes env0 st0_sc 100 4000 0 [] =
     Some (qcow2_subcluster_zeroize env0 0 2048 0
             [Ev_bdrv_block_status_above 0 100, Ev_bdrv_block_status_above 4100 2044,
              Ev_qcow2_get_host_offset 0 2048])"
    using T [of env0] z1 z2 g
    by (simp add: st0_sc_fields BDRV_SECTOR_SIZE_def st0_sc_head_tail)
  have B: "qcow2_pwrite_zeroes ?d st0_sc 100 4000 0 [] =
             Some (Some ERR_ENOTSUP, [Ev_bdrv_block_status_above 0 100])"
    using T [of ?d] d1
    by (simp add: st0_sc_fields BDRV_SECTOR_SIZE_def st0_sc_head_tail)
  show ?thesis using h z1 z2 A d1 B by simp
qed

text \<open>
  Claim C2 as stated fails for an unaligned range longer than one subcluster: with
  2 KiB subclusters, zeroing 4000 bytes at offset 100 rounds outward to the 6144 bytes
  from 0, but only the first subcluster (2048 bytes from 0) is zeroized.
\<close>

theorem qcow2_pwrite_zeroes_one_subcluster_counterexample:
  "qcow2_pwrite_zeroes env0 st0_sc 100 4000 0 [] =
     Some (None, [Ev_bdrv_block_status_above 0 100, Ev_bdrv_block_status_above 4100 2044,
                  Ev_qcow2_get_host_offset 0 2048, Ev_qcow2_subcluster_zeroize 0 2048 0]) \<and>
   spec_rounded_range (opaque st0_sc) 100 4000 = (0, 6144)"
  by (simp add: qcow2_pwrite_zeroes_def spec_rounded_range_def st0_sc_head_tail st0_sc_fields
      BDRV_SECTOR_SIZE_def is_zero_env0_head is_zero_env0_tail env0_get_host_offset
      env0_subcluster_zeroize Let_def)

end
